theory Spec2Isabelle
  imports Complex_Main
begin

section \<open>Python values\<close>

text \<open>
  The engines of \<^verbatim>\<open>backend/app/services\<close> pass Python dictionaries around: JSON
  columns, the findings of a control, the dictionaries the API returns. A Python value is
  modelled by \<open>pyval\<close>; a dictionary is an association list in insertion order. Python's
  floats are modelled by exact rationals (the only float arithmetic of the engines is the
  compliance score, a quotient of two small counts times one hundred).
\<close>

datatype pyval =
    PyNone
  | PyBool bool
  | PyInt int
  | PyFloat rat
  | PyStr string
  | PyBytes "nat list"
  | PyList "pyval list"
  | PyDict "(pyval \<times> pyval) list"

text \<open>Truth value testing, as \<^verbatim>\<open>if x:\<close> and \<^verbatim>\<open>not x\<close> do it.\<close>

fun truthy :: "pyval \<Rightarrow> bool" where
  "truthy PyNone = False"
| "truthy (PyBool b) = b"
| "truthy (PyInt i) = (i \<noteq> 0)"
| "truthy (PyFloat x) = (x \<noteq> 0)"
| "truthy (PyStr s) = (s \<noteq> [])"
| "truthy (PyBytes bs) = (bs \<noteq> [])"
| "truthy (PyList xs) = (xs \<noteq> [])"
| "truthy (PyDict kvs) = (kvs \<noteq> [])"

text \<open>A dictionary literal with string keys, \<^verbatim>\<open>{"k": v, ...}\<close>.\<close>

definition py_dict :: "(string \<times> pyval) list \<Rightarrow> pyval" where
  "py_dict kvs = PyDict (map (\<lambda>(k, v). (PyStr k, v)) kvs)"

text \<open>\<^verbatim>\<open>d[k] = v\<close>: an existing key keeps its place, a new key goes last.\<close>

fun dict_set :: "(pyval \<times> pyval) list \<Rightarrow> pyval \<Rightarrow> pyval \<Rightarrow> (pyval \<times> pyval) list" where
  "dict_set [] k v = [(k, v)]"
| "dict_set ((k', v') # kvs) k v =
     (if k' = k then (k, v) # kvs else (k', v') # dict_set kvs k v)"

text \<open>Looking a string key up in a value that may or may not be a dictionary.\<close>

fun dict_get :: "pyval \<Rightarrow> string \<Rightarrow> pyval option" where
  "dict_get (PyDict kvs) k = map_of kvs (PyStr k)"
| "dict_get _ k = None"

text \<open>\<^verbatim>\<open>str(n)\<close> for an integer, used by the f-strings of the error messages.\<close>

definition digit_char :: "nat \<Rightarrow> char" where
  "digit_char d = char_of (48 + d)"

fun str_nat :: "nat \<Rightarrow> string" where
  "str_nat n = (if n < 10 then [digit_char n] else str_nat (n div 10) @ [digit_char (n mod 10)])"

declare str_nat.simps [simp del]

definition str_int :: "int \<Rightarrow> string" where
  "str_int i = (if i < 0 then CHR ''-'' # str_nat (nat (- i)) else str_nat (nat i))"

section \<open>Exceptions\<close>

text \<open>
  Every \<^verbatim>\<open>raise\<close> of the engines and every exception that reaches them from a control
  or from the object store is a value of \<open>exn\<close>; a function that may raise returns
  \<open>exn + 'a\<close>. \<open>Exception msg\<close> stands for any other subclass of \<^verbatim>\<open>Exception\<close>
  whose \<^verbatim>\<open>str\<close> is \<open>msg\<close>.
\<close>

datatype exn =
    ValueError string
  | TypeError string
  | KeyError string
  | AttributeError string
  | MultipleResultsFound
  | ClientError string string
  | Exception string

text \<open>\<^verbatim>\<open>str(e)\<close>. A \<^verbatim>\<open>KeyError\<close> prints the repr of its key; a botocore
  \<^verbatim>\<open>ClientError\<close> carries its error code and prints its message.\<close>

fun str_exn :: "exn \<Rightarrow> string" where
  "str_exn (ValueError m) = m"
| "str_exn (TypeError m) = m"
| "str_exn (KeyError k) = [CHR 0x27] @ k @ [CHR 0x27]"
| "str_exn (AttributeError m) = m"
| "str_exn MultipleResultsFound = ''Multiple rows were found when one or none was required''"
| "str_exn (ClientError code m) = m"
| "str_exn (Exception m) = m"

section \<open>The persisted data model\<close>

text \<open>
  One record per SQLAlchemy model of \<^verbatim>\<open>backend/app/models\<close>, one field per column
  the engines read or write; the field names carry a prefix because two models share
  column names. A nullable scalar column is an \<open>option\<close>, a JSON column is a \<open>pyval\<close>
  (\<open>PyNone\<close> for NULL), a timestamp is a reading of the logical clock below.
\<close>

record Organization =
  org_id :: int
  org_name :: string
  org_compliance_frameworks :: pyval

record CloudAccount =
  ca_id :: int
  ca_organization_id :: int
  ca_name :: string
  ca_provider :: string
  ca_credentials :: pyval
  ca_last_scan_at :: "nat option"
  ca_last_scan_status :: "string option"

record ControlResult =
  cr_id :: int
  cr_cloud_account_id :: int
  cr_control_id :: string
  cr_status :: string
  cr_risk_level :: "string option"
  cr_resource_id :: "string option"
  cr_resource_type :: "string option"
  cr_finding_details :: pyval
  cr_evidence_before :: pyval
  cr_evidence_after :: pyval
  cr_evidence_s3_key :: "string option"
  cr_remediation_status :: "string option"
  cr_remediation_approved_by :: "string option"
  cr_remediation_executed_at :: "nat option"
  cr_remediation_details :: pyval
  cr_rollback_data :: pyval
  cr_scan_id :: "string option"
  cr_detected_at :: "nat option"
  cr_resolved_at :: "nat option"
  cr_result_metadata :: pyval

record AuditLog =
  al_id :: int
  al_control_result_id :: "int option"
  al_event_type :: string
  al_action :: string
  al_actor :: "string option"
  al_cloud_account_id :: "int option"
  al_organization_id :: "int option"
  al_control_id :: "string option"
  al_resource_id :: "string option"
  al_event_data :: pyval
  al_before_state :: pyval
  al_after_state :: pyval
  al_ip_address :: "string option"
  al_user_agent :: "string option"
  al_timestamp :: nat
  al_success :: "string option"
  al_error_message :: "string option"

text \<open>The column names of the \<^verbatim>\<open>audit_logs\<close> table, as \<^verbatim>\<open>class AuditLog\<close>
  declares them (\<^verbatim>\<open>models/audit_log.py\<close>).\<close>

definition AuditLog_columns :: "string list" where
  "AuditLog_columns =
     [''id'', ''control_result_id'', ''event_type'', ''action'', ''actor'',
      ''cloud_account_id'', ''organization_id'', ''control_id'', ''resource_id'',
      ''event_data'', ''before_state'', ''after_state'', ''ip_address'', ''user_agent'',
      ''timestamp'', ''success'', ''error_message'']"

record database =
  organizations :: "Organization list"
  cloud_accounts :: "CloudAccount list"
  control_results :: "ControlResult list"
  audit_logs :: "AuditLog list"

section \<open>The world an engine runs in\<close>

text \<open>
  The provider behind the cloud adapter is an oracle: \<open>respond\<close> gives the answer to a
  request (service, operation, parameters) after the mutating requests accepted so far,
  or the exception the SDK raises; \<open>sent\<close> is the list of mutating requests the provider
  has accepted, oldest first.
\<close>

type_synonym api_request = "string \<times> string \<times> pyval"

record cloud =
  respond :: "api_request list \<Rightarrow> api_request \<Rightarrow> exn + pyval"
  sent :: "api_request list"

text \<open>
  The journal records what an observer of the session and of the controls sees, in
  order: every \<^verbatim>\<open>db.commit()\<close> with the database it makes durable, and every call
  of a method of a control.
\<close>

datatype event = Commit database | Invoke string string

text \<open>
  \<open>clock\<close> is a logical clock: a reading (\<^verbatim>\<open>datetime.utcnow()\<close> or the database's
  \<^verbatim>\<open>func.now()\<close>) returns the current tick and advances it.
\<close>

record world =
  db :: database
  cloud :: cloud
  clock :: nat
  journal :: "event list"

definition now :: "world \<Rightarrow> nat \<times> world" where
  "now w = (clock w, w\<lparr>clock := Suc (clock w)\<rparr>)"

definition isoformat :: "nat \<Rightarrow> string" where
  "isoformat t = str_nat t"

text \<open>\<^verbatim>\<open>await self.db.commit()\<close>: the pending state \<open>d\<close> of the session becomes the
  database.\<close>

definition commit :: "database \<Rightarrow> world \<Rightarrow> world" where
  "commit d w = w\<lparr>db := d, journal := journal w @ [Commit d]\<rparr>"

text \<open>The integer primary key of a new row.\<close>

definition next_id :: "int list \<Rightarrow> int" where
  "next_id ids = fold max ids 0 + 1"

text \<open>\<^verbatim>\<open>result.scalar_one_or_none()\<close> over the rows a query selects.\<close>

fun scalar_one_or_none :: "'a list \<Rightarrow> exn + 'a option" where
  "scalar_one_or_none [] = Inr None"
| "scalar_one_or_none [x] = Inr (Some x)"
| "scalar_one_or_none (x # y # zs) = Inl MultipleResultsFound"

section \<open>Audit log writers\<close>

text \<open>The keyword arguments the two \<^verbatim>\<open>_log_audit\<close> methods read with
  \<^verbatim>\<open>kwargs.get\<close>; \<open>None\<close> is a keyword the caller did not pass.\<close>

record audit_kwargs =
  kw_event_data :: "pyval option"
  kw_cloud_account_id :: "int option"
  kw_organization_id :: "int option"
  kw_control_id :: "string option"
  kw_resource_id :: "string option"
  kw_control_result_id :: "int option"
  kw_before_state :: "pyval option"
  kw_after_state :: "pyval option"
  kw_success :: "string option"
  kw_error_message :: "string option"

definition no_kwargs :: audit_kwargs where
  "no_kwargs = \<lparr>kw_event_data = None, kw_cloud_account_id = None,
     kw_organization_id = None, kw_control_id = None, kw_resource_id = None,
     kw_control_result_id = None, kw_before_state = None, kw_after_state = None,
     kw_success = None, kw_error_message = None\<rparr>"

definition or_none :: "pyval option \<Rightarrow> pyval" where
  "or_none v = (case v of None \<Rightarrow> PyNone | Some x \<Rightarrow> x)"

text \<open>\<^verbatim>\<open>DetectionEngine._log_audit\<close> (detection_engine.py, 178-197): the actor is
  always the system and the outcome always success; the id and the timestamp are the
  database's.\<close>

definition DetectionEngine_log_audit ::
    "string \<Rightarrow> string \<Rightarrow> audit_kwargs \<Rightarrow> world \<Rightarrow> world" where
  "DetectionEngine_log_audit event_type action kwargs w =
     (let (t, w1) = now w;
          log = \<lparr>al_id = next_id (map al_id (audit_logs (db w1))),
                 al_control_result_id = None,
                 al_event_type = event_type,
                 al_action = action,
                 al_actor = Some ''system'',
                 al_cloud_account_id = kw_cloud_account_id kwargs,
                 al_organization_id = kw_organization_id kwargs,
                 al_control_id = kw_control_id kwargs,
                 al_resource_id = kw_resource_id kwargs,
                 al_event_data = (case kw_event_data kwargs of None \<Rightarrow> PyDict [] | Some d \<Rightarrow> d),
                 al_before_state = PyNone,
                 al_after_state = PyNone,
                 al_ip_address = None,
                 al_user_agent = None,
                 al_timestamp = t,
                 al_success = Some ''success'',
                 al_error_message = None\<rparr>
      in commit ((db w1)\<lparr>audit_logs := audit_logs (db w1) @ [log]\<rparr>) w1)"

section \<open>Controls\<close>

text \<open>
  \<^verbatim>\<open>controls/base.py\<close>. A control class is a record of its class attributes and
  its three methods. A method takes the client the instance was built with (\<open>None\<close>
  where the engine passes \<^verbatim>\<open>None\<close>) and the provider; \<^verbatim>\<open>detect\<close> only reads,
  \<^verbatim>\<open>remediate\<close> and \<^verbatim>\<open>rollback\<close> return the provider as they leave it. A method
  may raise. The registry \<^verbatim>\<open>AWS_CONTROLS\<close> is a parameter \<open>catalog\<close> of the
  engines, so that what is proved of an engine holds for every registry.
\<close>

record ControlFinding =
  cf_status :: string
  cf_resource_id :: string
  cf_resource_type :: string
  cf_finding_details :: pyval
  cf_evidence :: pyval
  cf_can_auto_remediate :: bool
  cf_remediation_risk :: string

record RemediationResult =
  rr_success :: bool
  rr_resource_id :: pyval
  rr_before_state :: pyval
  rr_after_state :: pyval
  rr_rollback_data :: pyval
  rr_error_message :: "string option"

text \<open>The object \<^verbatim>\<open>remediate_finding\<close> rebuilds from the persisted row
  (\<^verbatim>\<open>type('Finding', (), {...})()\<close>).\<close>

record Finding =
  f_resource_id :: "string option"
  f_resource_type :: "string option"
  f_evidence :: pyval
  f_finding_details :: pyval

datatype client = AWSClient pyval | AzureClient pyval

record control =
  control_id :: string
  title :: string
  description :: string
  severity :: string
  category :: string
  frameworks :: pyval
  detect :: "client option \<Rightarrow> cloud \<Rightarrow> exn + ControlFinding list"
  remediate :: "client option \<Rightarrow> cloud \<Rightarrow> Finding \<Rightarrow> bool \<Rightarrow> (exn + RemediationResult) \<times> cloud"
  rollback :: "client option \<Rightarrow> cloud \<Rightarrow> pyval \<Rightarrow> (exn + RemediationResult) \<times> cloud"

definition opt_str :: "string option \<Rightarrow> pyval" where
  "opt_str s = (case s of None \<Rightarrow> PyNone | Some x \<Rightarrow> PyStr x)"

fun type_name :: "pyval \<Rightarrow> string" where
  "type_name PyNone = ''NoneType''"
| "type_name (PyBool b) = ''bool''"
| "type_name (PyInt i) = ''int''"
| "type_name (PyFloat x) = ''float''"
| "type_name (PyStr s) = ''str''"
| "type_name (PyBytes bs) = ''bytes''"
| "type_name (PyList xs) = ''list''"
| "type_name (PyDict kvs) = ''dict''"

text \<open>\<^verbatim>\<open>BaseControl.remediate\<close> and \<^verbatim>\<open>BaseControl.rollback\<close>: the defaults a
  control inherits when it does not override them.\<close>

definition BaseControl_remediate ::
    "client option \<Rightarrow> cloud \<Rightarrow> Finding \<Rightarrow> bool \<Rightarrow> (exn + RemediationResult) \<times> cloud" where
  "BaseControl_remediate cl c finding dry_run =
     (Inr \<lparr>rr_success = False,
            rr_resource_id = opt_str (f_resource_id finding),
            rr_before_state = f_evidence finding,
            rr_after_state = PyNone,
            rr_rollback_data = PyNone,
            rr_error_message = Some ''Remediation not implemented for this control''\<rparr>, c)"

definition BaseControl_rollback ::
    "client option \<Rightarrow> cloud \<Rightarrow> pyval \<Rightarrow> (exn + RemediationResult) \<times> cloud" where
  "BaseControl_rollback cl c rollback_data =
     (case rollback_data of
        PyDict kvs \<Rightarrow>
          (Inr \<lparr>rr_success = False,
                 rr_resource_id =
                   (case map_of kvs (PyStr ''resource_id'') of
                      None \<Rightarrow> PyStr ''unknown'' | Some v \<Rightarrow> v),
                 rr_before_state = PyDict [],
                 rr_after_state = PyNone,
                 rr_rollback_data = PyNone,
                 rr_error_message = Some ''Rollback not implemented for this control''\<rparr>, c)
      | _ \<Rightarrow>
          (Inl (AttributeError ([CHR 0x27] @ type_name rollback_data @
                  [CHR 0x27] @ '' object has no attribute '' @ [CHR 0x27] @ ''get'' @ [CHR 0x27])), c))"

subsection \<open>The control AWS-S3-001\<close>

text \<open>
  \<^verbatim>\<open>AWSClient.list_buckets\<close> and \<^verbatim>\<open>AWSClient.get_public_access_block\<close>
  (aws_client.py): the first lets every exception of the SDK through, the second turns
  the error code for a missing configuration into \<^verbatim>\<open>None\<close>.
\<close>

definition AWSClient_list_buckets :: "cloud \<Rightarrow> exn + pyval" where
  "AWSClient_list_buckets c =
     (case respond c (sent c) (''s3'', ''list_buckets'', PyDict []) of
        Inl e \<Rightarrow> Inl e
      | Inr (PyDict kvs) \<Rightarrow>
          Inr (case map_of kvs (PyStr ''Buckets'') of None \<Rightarrow> PyList [] | Some v \<Rightarrow> v)
      | Inr r \<Rightarrow> Inl (AttributeError ([CHR 0x27] @ type_name r @
                  [CHR 0x27] @ '' object has no attribute '' @ [CHR 0x27] @ ''get'' @ [CHR 0x27])))"

definition AWSClient_get_public_access_block :: "cloud \<Rightarrow> string \<Rightarrow> exn + pyval" where
  "AWSClient_get_public_access_block c bucket_name =
     (case respond c (sent c)
             (''s3'', ''get_public_access_block'', py_dict [(''Bucket'', PyStr bucket_name)]) of
        Inl (ClientError code m) \<Rightarrow>
          (if code = ''NoSuchPublicAccessBlockConfiguration'' then Inr PyNone
           else Inl (ClientError code m))
      | Inl e \<Rightarrow> Inl e
      | Inr r \<Rightarrow> Inr r)"

text \<open>\<^verbatim>\<open>pub.get('PublicAccessBlockConfiguration', {}).get(k)\<close> is truthy for both
  keys. \<open>pub\<close> is truthy here, and an answer of the SDK is a dictionary.\<close>

definition blocks_public_access :: "pyval \<Rightarrow> bool" where
  "blocks_public_access pub =
     (let cfg = (case dict_get pub ''PublicAccessBlockConfiguration'' of
                   None \<Rightarrow> PyDict [] | Some v \<Rightarrow> v)
      in list_all (\<lambda>k. case dict_get cfg k of None \<Rightarrow> False | Some v \<Rightarrow> truthy v)
           [''BlockPublicAcls'', ''BlockPublicPolicy''])"

text \<open>The loop of \<^verbatim>\<open>S3PublicAccessControl.detect\<close> over the buckets. A bucket is a
  dictionary with a string under \<^verbatim>\<open>Name\<close>, as the SDK documents; any other shape
  ends the detection with an exception.\<close>

fun S3PublicAccess_buckets :: "cloud \<Rightarrow> pyval list \<Rightarrow> exn + ControlFinding list" where
  "S3PublicAccess_buckets c [] = Inr []"
| "S3PublicAccess_buckets c (b # bs) =
     (case dict_get b ''Name'' of
        Some (PyStr name) \<Rightarrow>
          (case AWSClient_get_public_access_block c name of
             Inl e \<Rightarrow> Inl e
           | Inr pub \<Rightarrow>
               (case S3PublicAccess_buckets c bs of
                  Inl e \<Rightarrow> Inl e
                | Inr rest \<Rightarrow>
                    if \<not> truthy pub \<or> \<not> blocks_public_access pub
                    then Inr (\<lparr>cf_status = ''FAIL'',
                               cf_resource_id = ''arn:aws:s3:::'' @ name,
                               cf_resource_type = ''S3::Bucket'',
                               cf_finding_details = py_dict [(''bucket'', PyStr name)],
                               cf_evidence = py_dict [(''bucket'', PyStr name)],
                               cf_can_auto_remediate = True,
                               cf_remediation_risk = ''high''\<rparr> # rest)
                    else Inr rest))
      | Some v \<Rightarrow> Inl (TypeError ''bucket name is not a string'')
      | None \<Rightarrow> Inl (KeyError ''Name''))"

definition S3PublicAccess_detect :: "client option \<Rightarrow> cloud \<Rightarrow> exn + ControlFinding list" where
  "S3PublicAccess_detect cl c =
     (case AWSClient_list_buckets c of
        Inl e \<Rightarrow> Inl e
      | Inr (PyList bs) \<Rightarrow> S3PublicAccess_buckets c bs
      | Inr v \<Rightarrow> Inl (TypeError ''Buckets is not a list''))"

text \<open>\<^verbatim>\<open>finding.evidence['bucket']\<close>.\<close>

definition evidence_bucket :: "pyval \<Rightarrow> exn + pyval" where
  "evidence_bucket ev =
     (case ev of
        PyDict kvs \<Rightarrow>
          (case map_of kvs (PyStr ''bucket'') of
             None \<Rightarrow> Inl (KeyError ''bucket'') | Some v \<Rightarrow> Inr v)
      | _ \<Rightarrow> Inl (TypeError ([CHR 0x27] @ type_name ev @ [CHR 0x27] @
                      '' object is not subscriptable'')))"

definition failed_result :: "Finding \<Rightarrow> exn \<Rightarrow> RemediationResult" where
  "failed_result finding e =
     \<lparr>rr_success = False,
      rr_resource_id = opt_str (f_resource_id finding),
      rr_before_state = f_evidence finding,
      rr_after_state = PyNone,
      rr_rollback_data = PyNone,
      rr_error_message = Some (str_exn e)\<rparr>"

definition blocked_result :: "Finding \<Rightarrow> RemediationResult" where
  "blocked_result finding =
     \<lparr>rr_success = True,
      rr_resource_id = opt_str (f_resource_id finding),
      rr_before_state = f_evidence finding,
      rr_after_state = py_dict [(''blocked'', PyBool True)],
      rr_rollback_data = f_evidence finding,
      rr_error_message = None\<rparr>"

text \<open>\<^verbatim>\<open>S3PublicAccessControl.remediate\<close> (aws_controls.py, 24-30). A dry run
  answers without touching the client; otherwise every exception on the way to the
  provider becomes a failed result.\<close>

definition S3PublicAccess_remediate ::
    "client option \<Rightarrow> cloud \<Rightarrow> Finding \<Rightarrow> bool \<Rightarrow> (exn + RemediationResult) \<times> cloud" where
  "S3PublicAccess_remediate cl c finding dry_run =
     (if dry_run then (Inr (blocked_result finding), c)
      else
        (case cl of
           None \<Rightarrow>
             (Inr (failed_result finding (AttributeError
                ([CHR 0x27] @ ''NoneType'' @ [CHR 0x27] @ '' object has no attribute '' @
                 [CHR 0x27] @ ''get_client'' @ [CHR 0x27]))), c)
         | Some k \<Rightarrow>
             (case evidence_bucket (f_evidence finding) of
                Inl e \<Rightarrow> (Inr (failed_result finding e), c)
              | Inr bucket \<Rightarrow>
                  (let req = (''s3'', ''put_public_access_block'',
                              py_dict [(''Bucket'', bucket),
                                (''PublicAccessBlockConfiguration'',
                                 py_dict [(''BlockPublicAcls'', PyBool True),
                                          (''BlockPublicPolicy'', PyBool True),
                                          (''IgnorePublicAcls'', PyBool True),
                                          (''RestrictPublicBuckets'', PyBool True)])])
                   in case respond c (sent c) req of
                        Inl e \<Rightarrow> (Inr (failed_result finding e), c)
                      | Inr r \<Rightarrow> (Inr (blocked_result finding), c\<lparr>sent := sent c @ [req]\<rparr>)))))"

definition S3PublicAccessControl :: control where
  "S3PublicAccessControl =
     \<lparr>control_id = ''AWS-S3-001'',
      title = ''Block Public Access'',
      description = ''S3 buckets must block public access'',
      severity = ''critical'',
      category = ''Storage'',
      frameworks = PyDict [(PyStr ''ISO27001'', PyList [PyStr ''A.13.1.3'']),
                           (PyStr ''GDPR'', PyList [PyStr ''Art.32''])],
      detect = S3PublicAccess_detect,
      remediate = S3PublicAccess_remediate,
      rollback = BaseControl_rollback\<rparr>"

section \<open>Detection Engine\<close>

text \<open>
  \<^verbatim>\<open>DetectionEngine._save_result\<close> (detection_engine.py, 133-176). The row gets
  its id and \<^verbatim>\<open>detected_at\<close> from the database and the column defaults of the model
  (\<^verbatim>\<open>remediation_details\<close> and \<^verbatim>\<open>result_metadata\<close> default to an empty
  dictionary: the keyword \<^verbatim>\<open>metadata=\<close> of the constructor call is not a column of
  the model). The details of a row without a finding are
  \<^verbatim>\<open>{"error": error_msg} if error_msg else {}\<close>.
\<close>

definition DetectionEngine_save_result ::
    "int \<Rightarrow> control \<Rightarrow> ControlFinding option \<Rightarrow> string \<Rightarrow> string \<Rightarrow> string option \<Rightarrow>
     world \<Rightarrow> world" where
  "DetectionEngine_save_result account_id ctl finding status scan_id error_msg w =
     (let (t, w1) = now w;
          result =
            \<lparr>cr_id = next_id (map cr_id (control_results (db w1))),
             cr_cloud_account_id = account_id,
             cr_control_id = control_id ctl,
             cr_status = status,
             cr_risk_level = Some (severity ctl),
             cr_resource_id = (case finding of None \<Rightarrow> None | Some f \<Rightarrow> Some (cf_resource_id f)),
             cr_resource_type = (case finding of None \<Rightarrow> None | Some f \<Rightarrow> Some (cf_resource_type f)),
             cr_finding_details =
               (case finding of
                  Some f \<Rightarrow> cf_finding_details f
                | None \<Rightarrow>
                    (case error_msg of
                       None \<Rightarrow> PyDict []
                     | Some m \<Rightarrow> if m \<noteq> [] then py_dict [(''error'', PyStr m)] else PyDict [])),
             cr_evidence_before = (case finding of None \<Rightarrow> PyDict [] | Some f \<Rightarrow> cf_evidence f),
             cr_evidence_after = PyNone,
             cr_evidence_s3_key = None,
             cr_remediation_status = None,
             cr_remediation_approved_by = None,
             cr_remediation_executed_at = None,
             cr_remediation_details = PyDict [],
             cr_rollback_data = PyNone,
             cr_scan_id = Some scan_id,
             cr_detected_at = Some t,
             cr_resolved_at = None,
             cr_result_metadata = PyDict []\<rparr>;
          w2 = commit ((db w1)\<lparr>control_results := control_results (db w1) @ [result]\<rparr>) w1
      in DetectionEngine_log_audit ''detection''
           (''Control '' @ control_id ctl @ '': '' @ status)
           (no_kwargs\<lparr>kw_cloud_account_id := Some account_id,
              kw_control_id := Some (control_id ctl),
              kw_resource_id := (case finding of None \<Rightarrow> None | Some f \<Rightarrow> Some (cf_resource_id f)),
              kw_event_data := Some (py_dict
                [(''status'', PyStr status),
                 (''severity'', PyStr (severity ctl)),
                 (''finding'', (case finding of None \<Rightarrow> PyDict [] | Some f \<Rightarrow> cf_finding_details f))])\<rparr>)
           w2)"

text \<open>The inner loop \<^verbatim>\<open>for finding in findings\<close> of \<^verbatim>\<open>scan_account\<close>.\<close>

fun save_findings :: "int \<Rightarrow> control \<Rightarrow> string \<Rightarrow> ControlFinding list \<Rightarrow> world \<Rightarrow> world" where
  "save_findings account_id ctl scan_id [] w = w"
| "save_findings account_id ctl scan_id (f # fs) w =
     save_findings account_id ctl scan_id fs
       (DetectionEngine_save_result account_id ctl (Some f) (cf_status f) scan_id None w)"

record scan_counts =
  pass_count :: nat
  fail_count :: nat
  error_count :: nat
  total_findings :: nat

text \<open>
  The loop \<^verbatim>\<open>for control in controls\<close> (detection_engine.py, 69-88): an exception
  of \<^verbatim>\<open>detect\<close> is caught, counted and saved as one row of status ERROR with
  \<^verbatim>\<open>str(e)\<close> as the error message, and the loop goes on.
\<close>

fun run_controls ::
    "int \<Rightarrow> string \<Rightarrow> client \<Rightarrow> control list \<Rightarrow> scan_counts \<Rightarrow> world \<Rightarrow> scan_counts \<times> world" where
  "run_controls account_id scan_id cl [] n w = (n, w)"
| "run_controls account_id scan_id cl (ctl # ctls) n w =
     (let w0 = w\<lparr>journal := journal w @ [Invoke (control_id ctl) ''detect'']\<rparr>
      in case detect ctl (Some cl) (cloud w0) of
           Inl e \<Rightarrow>
             run_controls account_id scan_id cl ctls
               (n\<lparr>error_count := error_count n + 1\<rparr>)
               (DetectionEngine_save_result account_id ctl None ''ERROR'' scan_id (Some (str_exn e)) w0)
         | Inr findings \<Rightarrow>
             if findings = [] then
               run_controls account_id scan_id cl ctls
                 (n\<lparr>pass_count := pass_count n + 1\<rparr>)
                 (DetectionEngine_save_result account_id ctl None ''PASS'' scan_id None w0)
             else
               run_controls account_id scan_id cl ctls
                 (n\<lparr>fail_count := fail_count n + length findings,
                    total_findings := total_findings n + length findings\<rparr>)
                 (save_findings account_id ctl scan_id findings w0))"

text \<open>Assignments to the attributes of the loaded account, made durable by the next
  commit.\<close>

definition update_account :: "int \<Rightarrow> (CloudAccount \<Rightarrow> CloudAccount) \<Rightarrow> database \<Rightarrow> database" where
  "update_account account_id f d =
     d\<lparr>cloud_accounts := map (\<lambda>a. if ca_id a = account_id then f a else a) (cloud_accounts d)\<rparr>"

text \<open>\<^verbatim>\<open>AzureClient.__init__\<close> reads three keys of the credentials with a subscript.\<close>

definition AzureClient_init :: "pyval \<Rightarrow> exn + client" where
  "AzureClient_init creds =
     (case creds of
        PyDict kvs \<Rightarrow>
          (if map_of kvs (PyStr ''tenant_id'') = None then Inl (KeyError ''tenant_id'')
           else if map_of kvs (PyStr ''client_id'') = None then Inl (KeyError ''client_id'')
           else if map_of kvs (PyStr ''client_secret'') = None then Inl (KeyError ''client_secret'')
           else Inr (AzureClient creds))
      | _ \<Rightarrow> Inl (TypeError ([CHR 0x27] @ type_name creds @ [CHR 0x27] @
                      '' object is not subscriptable'')))"

text \<open>The client and the controls of a provider (detection_engine.py, 52-59).\<close>

definition provider_controls :: "control list \<Rightarrow> CloudAccount \<Rightarrow> exn + client \<times> control list" where
  "provider_controls catalog account =
     (if ca_provider account = ''aws'' then Inr (AWSClient (ca_credentials account), catalog)
      else if ca_provider account = ''azure'' then
        (case AzureClient_init (ca_credentials account) of
           Inl e \<Rightarrow> Inl e
         | Inr cl \<Rightarrow> Inr (cl, []))
      else Inl (ValueError (''Unsupported provider: '' @ ca_provider account)))"

text \<open>\<^verbatim>\<open>if control_ids: controls = [c for c in controls if c.control_id in control_ids]\<close>\<close>

definition filter_controls :: "string list option \<Rightarrow> control list \<Rightarrow> control list" where
  "filter_controls control_ids controls =
     (case control_ids of
        None \<Rightarrow> controls
      | Some ids \<Rightarrow> if ids = [] then controls else filter (\<lambda>c. control_id c \<in> set ids) controls)"

definition zero_counts :: scan_counts where
  "zero_counts = \<lparr>pass_count = 0, fail_count = 0, error_count = 0, total_findings = 0\<rparr>"

text \<open>
  \<^verbatim>\<open>DetectionEngine.scan_account\<close> (detection_engine.py, 24-131). \<open>scan_id\<close> is the
  fresh \<^verbatim>\<open>uuid4\<close>. The account is looked up by id and never by its scan status; the
  first statement of the \<^verbatim>\<open>try\<close> block writes \<^verbatim>\<open>in_progress\<close> and commits. An
  exception inside the block marks the account failed, commits and is raised again.
\<close>

definition scan_account ::
    "control list \<Rightarrow> string \<Rightarrow> int \<Rightarrow> string list option \<Rightarrow> world \<Rightarrow> (exn + pyval) \<times> world" where
  "scan_account catalog scan_id account_id control_ids w =
     (case scalar_one_or_none (filter (\<lambda>a. ca_id a = account_id) (cloud_accounts (db w))) of
        Inl e \<Rightarrow> (Inl e, w)
      | Inr None \<Rightarrow> (Inl (ValueError (''Account '' @ str_int account_id @ '' not found'')), w)
      | Inr (Some account) \<Rightarrow>
          (let (scan_start, w1) = now w;
               w2 = commit (update_account account_id
                              (\<lambda>a. a\<lparr>ca_last_scan_status := Some ''in_progress''\<rparr>) (db w1)) w1
           in case provider_controls catalog account of
                Inl e \<Rightarrow>
                  (Inl e, commit (update_account account_id
                                    (\<lambda>a. a\<lparr>ca_last_scan_status := Some ''failed''\<rparr>) (db w2)) w2)
              | Inr (cl, all_controls) \<Rightarrow>
                  (let controls = filter_controls control_ids all_controls;
                       (n, w3) = run_controls account_id scan_id cl controls zero_counts w2;
                       (t_scan, w4) = now w3;
                       w5 = commit (update_account account_id
                                      (\<lambda>a. a\<lparr>ca_last_scan_at := Some t_scan,
                                            ca_last_scan_status := Some ''success''\<rparr>) (db w4)) w4;
                       (t_dur, w6) = now w5;
                       w7 = DetectionEngine_log_audit ''scan'' (''Completed scan '' @ scan_id)
                              (no_kwargs\<lparr>kw_cloud_account_id := Some account_id,
                                 kw_organization_id := Some (ca_organization_id account),
                                 kw_event_data := Some (py_dict
                                   [(''scan_id'', PyStr scan_id),
                                    (''controls_run'', PyInt (int (length controls))),
                                    (''total_findings'', PyInt (int (total_findings n))),
                                    (''pass'', PyInt (int (pass_count n))),
                                    (''fail'', PyInt (int (fail_count n))),
                                    (''error'', PyInt (int (error_count n))),
                                    (''duration_seconds'', PyFloat (of_nat (t_dur - scan_start)))])\<rparr>)
                              w6;
                       (t_done, w8) = now w7
                   in (Inr (py_dict
                         [(''scan_id'', PyStr scan_id),
                          (''account_id'', PyInt account_id),
                          (''status'', PyStr ''completed''),
                          (''summary'', py_dict
                             [(''total_controls'', PyInt (int (length controls))),
                              (''pass'', PyInt (int (pass_count n))),
                              (''fail'', PyInt (int (fail_count n))),
                              (''error'', PyInt (int (error_count n))),
                              (''total_findings'', PyInt (int (total_findings n)))]),
                          (''started_at'', PyStr (isoformat scan_start)),
                          (''completed_at'', PyStr (isoformat t_done))]), w8))))"

subsection \<open>Compliance score\<close>

text \<open>\<^verbatim>\<open>sum(1 for r in results if r.status == s)\<close>\<close>

definition count_status :: "string \<Rightarrow> ControlResult list \<Rightarrow> nat" where
  "count_status s results = sum_list (map (\<lambda>r. 1) (filter (\<lambda>r. cr_status r = s) results))"

text \<open>\<^verbatim>\<open>round(x, 2)\<close> on the exact value: to the nearest hundredth, a tie to the even
  one.\<close>

definition round_half_even :: "rat \<Rightarrow> int" where
  "round_half_even x =
     (let f = \<lfloor>x\<rfloor>; d = x - of_int f
      in if d < 1 / 2 then f else if 1 / 2 < d then f + 1 else if even f then f else f + 1)"

definition py_round2 :: "rat \<Rightarrow> rat" where
  "py_round2 x = of_int (round_half_even (x * 100)) / 100"

text \<open>\<^verbatim>\<open>Counter(keys)\<close> turned into a dictionary: one entry per key, in the order of
  first occurrence.\<close>

fun counter :: "pyval list \<Rightarrow> (pyval \<times> pyval) list \<Rightarrow> (pyval \<times> pyval) list" where
  "counter [] acc = acc"
| "counter (k # ks) acc =
     counter ks (dict_set acc k
       (case map_of acc k of Some (PyInt n) \<Rightarrow> PyInt (n + 1) | _ \<Rightarrow> PyInt 1))"

definition get_by_severity :: "ControlResult list \<Rightarrow> pyval" where
  "get_by_severity results =
     PyDict (counter (map (\<lambda>r. opt_str (cr_risk_level r))
                        (filter (\<lambda>r. cr_status r = ''FAIL'') results)) [])"

text \<open>The rows the query of \<^verbatim>\<open>get_compliance_score\<close> selects: by account when
  \<^verbatim>\<open>account_id\<close> is truthy, else by a join with the accounts of the organization when
  \<^verbatim>\<open>organization_id\<close> is truthy, else every row.\<close>

definition scoped_results :: "int option \<Rightarrow> int option \<Rightarrow> database \<Rightarrow> ControlResult list" where
  "scoped_results account_id organization_id d =
     (if account_id \<noteq> None \<and> account_id \<noteq> Some 0 then
        filter (\<lambda>r. Some (cr_cloud_account_id r) = account_id) (control_results d)
      else if organization_id \<noteq> None \<and> organization_id \<noteq> Some 0 then
        concat (map (\<lambda>r. map (\<lambda>a. r)
                  (filter (\<lambda>a. ca_id a = cr_cloud_account_id r \<and>
                                Some (ca_organization_id a) = organization_id)
                     (cloud_accounts d)))
               (control_results d))
      else control_results d)"

text \<open>\<^verbatim>\<open>DetectionEngine.get_compliance_score\<close> (detection_engine.py, 199-228).\<close>

definition get_compliance_score :: "int option \<Rightarrow> int option \<Rightarrow> world \<Rightarrow> pyval" where
  "get_compliance_score account_id organization_id w =
     (let results = scoped_results account_id organization_id (db w)
      in if results = [] then
           py_dict [(''score'', PyInt 0), (''total'', PyInt 0), (''pass'', PyInt 0),
                    (''fail'', PyInt 0), (''fixed'', PyInt 0)]
         else
           (let p = count_status ''PASS'' results;
                f = count_status ''FAIL'' results;
                x = count_status ''FIXED'' results;
                total = length results;
                score = (if 0 < total then PyFloat (py_round2 (of_nat (p + x) / of_nat total * 100))
                         else PyInt 0)
            in py_dict [(''score'', score),
                        (''total'', PyInt (int total)),
                        (''pass'', PyInt (int p)),
                        (''fail'', PyInt (int f)),
                        (''fixed'', PyInt (int x)),
                        (''by_severity'', get_by_severity results)]))"

section \<open>Remediation Engine\<close>

text \<open>\<^verbatim>\<open>RemediationEngine._log_audit\<close> (remediation_engine.py, 234-252).\<close>

definition RemediationEngine_log_audit ::
    "string \<Rightarrow> string \<Rightarrow> string \<Rightarrow> audit_kwargs \<Rightarrow> world \<Rightarrow> world" where
  "RemediationEngine_log_audit event_type action actor kwargs w =
     (let (t, w1) = now w;
          log = \<lparr>al_id = next_id (map al_id (audit_logs (db w1))),
                 al_control_result_id = kw_control_result_id kwargs,
                 al_event_type = event_type,
                 al_action = action,
                 al_actor = Some actor,
                 al_cloud_account_id = kw_cloud_account_id kwargs,
                 al_organization_id = kw_organization_id kwargs,
                 al_control_id = kw_control_id kwargs,
                 al_resource_id = kw_resource_id kwargs,
                 al_event_data = (case kw_event_data kwargs of None \<Rightarrow> PyDict [] | Some d \<Rightarrow> d),
                 al_before_state = or_none (kw_before_state kwargs),
                 al_after_state = or_none (kw_after_state kwargs),
                 al_ip_address = None,
                 al_user_agent = None,
                 al_timestamp = t,
                 al_success = Some (case kw_success kwargs of None \<Rightarrow> ''success'' | Some s \<Rightarrow> s),
                 al_error_message = kw_error_message kwargs\<rparr>
      in commit ((db w1)\<lparr>audit_logs := audit_logs (db w1) @ [log]\<rparr>) w1)"

text \<open>Assignments to the attributes of the loaded finding, made durable by the next
  commit.\<close>

definition update_result :: "int \<Rightarrow> (ControlResult \<Rightarrow> ControlResult) \<Rightarrow> database \<Rightarrow> database" where
  "update_result finding_id f d =
     d\<lparr>control_results := map (\<lambda>r. if cr_id r = finding_id then f r else r) (control_results d)\<rparr>"

text \<open>\<^verbatim>\<open>AWSClient(account.credentials) if account.provider == "aws" else None\<close>\<close>

definition client_for :: "CloudAccount \<Rightarrow> client option" where
  "client_for account =
     (if ca_provider account = ''aws'' then Some (AWSClient (ca_credentials account)) else None)"

definition finding_object :: "ControlResult \<Rightarrow> Finding" where
  "finding_object r =
     \<lparr>f_resource_id = cr_resource_id r,
      f_resource_type = cr_resource_type r,
      f_evidence = cr_evidence_before r,
      f_finding_details = cr_finding_details r\<rparr>"

text \<open>\<^verbatim>\<open>approved_by or "system"\<close>\<close>

definition actor_of :: "string option \<Rightarrow> string" where
  "actor_of approved_by =
     (case approved_by of None \<Rightarrow> ''system'' | Some a \<Rightarrow> if a = [] then ''system'' else a)"

definition none_has_no_attribute :: "string \<Rightarrow> exn" where
  "none_has_no_attribute a =
     AttributeError ([CHR 0x27] @ ''NoneType'' @ [CHR 0x27] @ '' object has no attribute '' @
                     [CHR 0x27] @ a @ [CHR 0x27])"

text \<open>
  \<^verbatim>\<open>RemediationEngine.remediate_finding\<close> (remediation_engine.py, 23-152). The
  checks before the call of the control are: the finding exists, its status is FAIL or
  ERROR, its control is in the registry. \<^verbatim>\<open>approved_by\<close> is read three times: it is
  stored on the finding, it names the actor of the audit entry (the system when it is
  missing or empty), and nothing else.
\<close>

definition remediate_finding ::
    "control list \<Rightarrow> int \<Rightarrow> bool \<Rightarrow> string option \<Rightarrow> world \<Rightarrow> (exn + pyval) \<times> world" where
  "remediate_finding catalog finding_id dry_run approved_by w =
     (case scalar_one_or_none (filter (\<lambda>r. cr_id r = finding_id) (control_results (db w))) of
        Inl e \<Rightarrow> (Inl e, w)
      | Inr None \<Rightarrow> (Inl (ValueError (''Finding '' @ str_int finding_id @ '' not found'')), w)
      | Inr (Some fr) \<Rightarrow>
          if cr_status fr \<noteq> ''FAIL'' \<and> cr_status fr \<noteq> ''ERROR'' then
            (Inl (ValueError (''Finding '' @ str_int finding_id @ '' is not in remediable state'')), w)
          else
            (case scalar_one_or_none
                    (filter (\<lambda>a. ca_id a = cr_cloud_account_id fr) (cloud_accounts (db w))) of
               Inl e \<Rightarrow> (Inl e, w)
             | Inr None \<Rightarrow> (Inl (none_has_no_attribute ''provider''), w)
             | Inr (Some account) \<Rightarrow>
                 (case find (\<lambda>c. control_id c = cr_control_id fr) catalog of
                    None \<Rightarrow> (Inl (ValueError (''Control '' @ cr_control_id fr @ '' not found'')), w)
                  | Some ctl \<Rightarrow>
                      (let w0 = w\<lparr>journal := journal w @ [Invoke (control_id ctl) ''remediate'']\<rparr>
                       in case remediate ctl (client_for account) (cloud w0) (finding_object fr) dry_run of
                            (Inl e, c') \<Rightarrow> (Inl e, w0\<lparr>cloud := c'\<rparr>)
                          | (Inr rr, c') \<Rightarrow>
                              (let w1 = w0\<lparr>cloud := c'\<rparr>
                               in if rr_success rr then
                                    (let w4 =
                                       (if \<not> dry_run then
                                          (let (t_exec, w2) = now w1;
                                               (t_res, w3) = now w2
                                           in commit (update_result finding_id
                                                (\<lambda>r. r\<lparr>cr_status := ''FIXED'',
                                                      cr_remediation_status := Some ''executed'',
                                                      cr_remediation_approved_by := approved_by,
                                                      cr_remediation_executed_at := Some t_exec,
                                                      cr_evidence_after := rr_after_state rr,
                                                      cr_rollback_data := rr_rollback_data rr,
                                                      cr_resolved_at := Some t_res\<rparr>) (db w3)) w3)
                                        else w1);
                                         w5 = RemediationEngine_log_audit ''remediation''
                                                ((if dry_run then ''Dry-run'' else ''Executed'') @
                                                 '' remediation for '' @ cr_control_id fr)
                                                (actor_of approved_by)
                                                (no_kwargs\<lparr>kw_cloud_account_id := Some (ca_id account),
                                                   kw_organization_id := Some (ca_organization_id account),
                                                   kw_control_id := Some (cr_control_id fr),
                                                   kw_resource_id := cr_resource_id fr,
                                                   kw_control_result_id := Some finding_id,
                                                   kw_before_state := Some (rr_before_state rr),
                                                   kw_after_state := Some (rr_after_state rr),
                                                   kw_event_data := Some (py_dict
                                                     [(''dry_run'', PyBool dry_run),
                                                      (''success'', PyBool True),
                                                      (''finding_id'', PyInt finding_id)])\<rparr>)
                                                w4
                                     in (Inr (py_dict
                                           [(''success'', PyBool True),
                                            (''finding_id'', PyInt finding_id),
                                            (''control_id'', PyStr (cr_control_id fr)),
                                            (''dry_run'', PyBool dry_run),
                                            (''resource_id'', opt_str (cr_resource_id fr)),
                                            (''before_state'', rr_before_state rr),
                                            (''after_state'', rr_after_state rr),
                                            (''message'', PyStr (''Remediation '' @
                                               (if dry_run then ''simulated'' else ''executed'') @
                                               '' successfully''))]), w5))
                                  else
                                    (let w2 =
                                       (if \<not> dry_run then
                                          commit (update_result finding_id
                                            (\<lambda>r. r\<lparr>cr_remediation_status := Some ''failed'',
                                                  cr_remediation_details :=
                                                    py_dict [(''error'', opt_str (rr_error_message rr))]\<rparr>)
                                            (db w1)) w1
                                        else w1);
                                         w3 = RemediationEngine_log_audit ''remediation''
                                                (''Failed remediation for '' @ cr_control_id fr)
                                                (actor_of approved_by)
                                                (no_kwargs\<lparr>kw_cloud_account_id := Some (ca_id account),
                                                   kw_control_id := Some (cr_control_id fr),
                                                   kw_resource_id := cr_resource_id fr,
                                                   kw_control_result_id := Some finding_id,
                                                   kw_event_data := Some (py_dict
                                                     [(''dry_run'', PyBool dry_run),
                                                      (''success'', PyBool False),
                                                      (''error'', opt_str (rr_error_message rr))]),
                                                   kw_success := Some ''failure'',
                                                   kw_error_message := rr_error_message rr\<rparr>)
                                                w2
                                     in (Inr (py_dict
                                           [(''success'', PyBool False),
                                            (''finding_id'', PyInt finding_id),
                                            (''error'', opt_str (rr_error_message rr))]), w3)))))))"

text \<open>\<^verbatim>\<open>{**finding_record.remediation_details, "rolled_back_at": ..., "rolled_back_by": ...}\<close>:
  the unpacking needs a mapping.\<close>

definition rolled_back_details :: "pyval \<Rightarrow> string \<Rightarrow> string \<Rightarrow> pyval" where
  "rolled_back_details details rolled_back_at rolled_back_by =
     (case details of
        PyDict kvs \<Rightarrow>
          PyDict (dict_set (dict_set kvs (PyStr ''rolled_back_at'') (PyStr rolled_back_at))
                    (PyStr ''rolled_back_by'') (PyStr rolled_back_by))
      | _ \<Rightarrow> PyNone)"

text \<open>
  \<^verbatim>\<open>RemediationEngine.rollback_remediation\<close> (remediation_engine.py, 154-232).
  A failed rollback of the control returns without a commit and without an audit entry.
\<close>

definition rollback_remediation ::
    "control list \<Rightarrow> int \<Rightarrow> string \<Rightarrow> world \<Rightarrow> (exn + pyval) \<times> world" where
  "rollback_remediation catalog finding_id rolled_back_by w =
     (case scalar_one_or_none (filter (\<lambda>r. cr_id r = finding_id) (control_results (db w))) of
        Inl e \<Rightarrow> (Inl e, w)
      | Inr None \<Rightarrow>
          (Inl (ValueError (''Finding '' @ str_int finding_id @ '' not in rollback-able state'')), w)
      | Inr (Some fr) \<Rightarrow>
          if cr_status fr \<noteq> ''FIXED'' then
            (Inl (ValueError (''Finding '' @ str_int finding_id @ '' not in rollback-able state'')), w)
          else if \<not> truthy (cr_rollback_data fr) then
            (Inl (ValueError (''No rollback data available for finding '' @ str_int finding_id)), w)
          else
            (case scalar_one_or_none
                    (filter (\<lambda>a. ca_id a = cr_cloud_account_id fr) (cloud_accounts (db w))) of
               Inl e \<Rightarrow> (Inl e, w)
             | Inr None \<Rightarrow> (Inl (none_has_no_attribute ''provider''), w)
             | Inr (Some account) \<Rightarrow>
                 (case find (\<lambda>c. control_id c = cr_control_id fr) catalog of
                    None \<Rightarrow> (Inl (ValueError (''Control '' @ cr_control_id fr @ '' not found'')), w)
                  | Some ctl \<Rightarrow>
                      (let w0 = w\<lparr>journal := journal w @ [Invoke (control_id ctl) ''rollback'']\<rparr>
                       in case rollback ctl (client_for account) (cloud w0) (cr_rollback_data fr) of
                            (Inl e, c') \<Rightarrow> (Inl e, w0\<lparr>cloud := c'\<rparr>)
                          | (Inr rr, c') \<Rightarrow>
                              (let w1 = w0\<lparr>cloud := c'\<rparr>
                               in if rr_success rr then
                                    (case cr_remediation_details fr of
                                       PyDict kvs \<Rightarrow>
                                         (let (t, w2) = now w1;
                                              w3 = commit (update_result finding_id
                                                     (\<lambda>r. r\<lparr>cr_status := ''FAIL'',
                                                           cr_remediation_status := Some ''rolled_back'',
                                                           cr_remediation_details :=
                                                             rolled_back_details (cr_remediation_details fr)
                                                               (isoformat t) rolled_back_by\<rparr>)
                                                     (db w2)) w2;
                                              w4 = RemediationEngine_log_audit ''rollback''
                                                     (''Rolled back remediation for '' @ cr_control_id fr)
                                                     rolled_back_by
                                                     (no_kwargs\<lparr>kw_cloud_account_id := Some (ca_id account),
                                                        kw_control_id := Some (cr_control_id fr),
                                                        kw_resource_id := cr_resource_id fr,
                                                        kw_control_result_id := Some finding_id,
                                                        kw_event_data := Some (py_dict
                                                          [(''finding_id'', PyInt finding_id),
                                                           (''success'', PyBool True)])\<rparr>)
                                                     w3
                                          in (Inr (py_dict
                                                [(''success'', PyBool True),
                                                 (''finding_id'', PyInt finding_id),
                                                 (''message'', PyStr ''Remediation rolled back successfully'')]),
                                              w4))
                                     | d \<Rightarrow>
                                         (Inl (TypeError ([CHR 0x27] @ type_name d @ [CHR 0x27] @
                                                 '' object is not a mapping'')), w1))
                                  else
                                    (Inr (py_dict
                                       [(''success'', PyBool False),
                                        (''finding_id'', PyInt finding_id),
                                        (''error'', opt_str (rr_error_message rr))]), w1))))))"

section \<open>Evidence Engine\<close>

text \<open>
  \<^verbatim>\<open>EvidenceEngine.export_audit_report\<close> (evidence_engine.py, 30-135). The two
  renderers (reportlab and \<^verbatim>\<open>json.dumps\<close>) and the bucket name of the settings are
  parameters. The object store is reached through the provider: an upload that is accepted
  is a request in \<open>sent\<close>. Whatever is raised between the upload and the return is
  caught, and the answer is then built without a download URL.
\<close>

type_synonym pdf_renderer =
  "Organization \<Rightarrow> AuditLog list \<Rightarrow> ControlResult list \<Rightarrow> nat option \<Rightarrow> nat option \<Rightarrow> exn + nat list"

type_synonym json_renderer =
  "Organization \<Rightarrow> AuditLog list \<Rightarrow> ControlResult list \<Rightarrow> exn + nat list"

definition report_audit_logs :: "int \<Rightarrow> nat option \<Rightarrow> nat option \<Rightarrow> database \<Rightarrow> AuditLog list" where
  "report_audit_logs organization_id start_date end_date d =
     rev (sort_key al_timestamp
       (filter (\<lambda>l. al_organization_id l = Some organization_id \<and>
                     (case start_date of None \<Rightarrow> True | Some s \<Rightarrow> s \<le> al_timestamp l) \<and>
                     (case end_date of None \<Rightarrow> True | Some e \<Rightarrow> al_timestamp l \<le> e))
          (audit_logs d)))"

definition report_control_results :: "int \<Rightarrow> database \<Rightarrow> ControlResult list" where
  "report_control_results organization_id d =
     concat (map (\<lambda>r. map (\<lambda>a. r)
               (filter (\<lambda>a. ca_id a = cr_cloud_account_id r \<and> ca_organization_id a = organization_id)
                  (cloud_accounts d)))
            (control_results d))"

definition upload_request :: "string \<Rightarrow> string \<Rightarrow> nat list \<Rightarrow> string \<Rightarrow> int \<Rightarrow> nat \<Rightarrow> api_request" where
  "upload_request bucket report_key report_data content_type organization_id t =
     (''s3'', ''put_object'',
      py_dict [(''Bucket'', PyStr bucket),
               (''Key'', PyStr report_key),
               (''Body'', PyBytes report_data),
               (''ContentType'', PyStr content_type),
               (''ServerSideEncryption'', PyStr ''AES256''),
               (''Metadata'', py_dict [(''organization_id'', PyStr (str_int organization_id)),
                                       (''generated_at'', PyStr (isoformat t))])])"

definition presign_request :: "string \<Rightarrow> string \<Rightarrow> api_request" where
  "presign_request bucket report_key =
     (''s3'', ''generate_presigned_url'',
      py_dict [(''ClientMethod'', PyStr ''get_object''),
               (''Params'', py_dict [(''Bucket'', PyStr bucket), (''Key'', PyStr report_key)]),
               (''ExpiresIn'', PyInt 3600)])"

text \<open>The dictionary of the \<^verbatim>\<open>except\<close> branch (evidence_engine.py, 124-135).\<close>

definition report_without_upload ::
    "string \<Rightarrow> string \<Rightarrow> nat \<Rightarrow> nat \<Rightarrow> world \<Rightarrow> (exn + pyval) \<times> world" where
  "report_without_upload report_key format n_logs n_findings w =
     (let (t, w1) = now w
      in (Inr (py_dict
            [(''report_key'', PyStr report_key),
             (''download_url'', PyNone),
             (''format'', PyStr format),
             (''generated_at'', PyStr (isoformat t)),
             (''total_audit_logs'', PyInt (int n_logs)),
             (''total_findings'', PyInt (int n_findings)),
             (''message'', PyStr
                ''Report generated successfully (S3 upload unavailable in demo mode)'')]), w1))"

definition export_audit_report ::
    "string \<Rightarrow> pdf_renderer \<Rightarrow> json_renderer \<Rightarrow> int \<Rightarrow> nat option \<Rightarrow> nat option \<Rightarrow> string \<Rightarrow>
     world \<Rightarrow> (exn + pyval) \<times> world" where
  "export_audit_report bucket generate_pdf_report generate_json_report
       organization_id start_date end_date format w =
     (case scalar_one_or_none (filter (\<lambda>g. org_id g = organization_id) (organizations (db w))) of
        Inl e \<Rightarrow> (Inl e, w)
      | Inr None \<Rightarrow>
          (Inl (ValueError (''Organization '' @ str_int organization_id @ '' not found'')), w)
      | Inr (Some organization) \<Rightarrow>
          (let logs = report_audit_logs organization_id start_date end_date (db w);
               results = report_control_results organization_id (db w)
           in case (if format = ''pdf''
                    then generate_pdf_report organization logs results start_date end_date
                    else generate_json_report organization logs results) of
                Inl e \<Rightarrow> (Inl e, w)
              | Inr report_data \<Rightarrow>
                  (let content_type = (if format = ''pdf'' then ''application/pdf'' else ''application/json'');
                       file_ext = (if format = ''pdf'' then ''pdf'' else ''json'');
                       (t_key, w1) = now w;
                       report_key = ''audit-reports/'' @ str_int organization_id @ ''/'' @
                                    isoformat t_key @ ''.'' @ file_ext;
                       (t_meta, w2) = now w1;
                       put = upload_request bucket report_key report_data content_type organization_id t_meta;
                       without_upload = report_without_upload report_key format (length logs) (length results)
                   in case respond (cloud w2) (sent (cloud w2)) put of
                        Inl e \<Rightarrow> without_upload w2
                      | Inr r \<Rightarrow>
                          (let w3 = w2\<lparr>cloud := (cloud w2)\<lparr>sent := sent (cloud w2) @ [put]\<rparr>\<rparr>
                           in case respond (cloud w3) (sent (cloud w3)) (presign_request bucket report_key) of
                                Inl e \<Rightarrow> without_upload w3
                              | Inr download_url \<Rightarrow>
                                  (let (t, w4) = now w3
                                   in (Inr (py_dict
                                         [(''report_key'', PyStr report_key),
                                          (''download_url'', download_url),
                                          (''format'', PyStr format),
                                          (''generated_at'', PyStr (isoformat t)),
                                          (''total_audit_logs'', PyInt (int (length logs))),
                                          (''total_findings'', PyInt (int (length results)))]),
                                       w4))))))"

section \<open>Concrete inputs\<close>

text \<open>
  The inputs at which the theorems below are evaluated: an AWS account of organization 1,
  a provider that accepts every request with an empty answer, and rows as
  \<^verbatim>\<open>_save_result\<close> writes them.
\<close>

definition example_cloud :: cloud where
  "example_cloud = \<lparr>respond = (\<lambda>history request. Inr (PyDict [])), sent = []\<rparr>"

definition example_account :: CloudAccount where
  "example_account =
     \<lparr>ca_id = 1, ca_organization_id = 1, ca_name = ''prod'', ca_provider = ''aws'',
      ca_credentials = py_dict [(''role_arn'', PyStr ''arn:aws:iam::123456789012:role/TestRole'')],
      ca_last_scan_at = None, ca_last_scan_status = None\<rparr>"

definition example_result :: "int \<Rightarrow> string \<Rightarrow> ControlResult" where
  "example_result i status =
     \<lparr>cr_id = i, cr_cloud_account_id = 1, cr_control_id = ''AWS-S3-001'', cr_status = status,
      cr_risk_level = Some ''critical'',
      cr_resource_id = Some ''arn:aws:s3:::b1'',
      cr_resource_type = Some ''S3::Bucket'',
      cr_finding_details = py_dict [(''bucket'', PyStr ''b1'')],
      cr_evidence_before = py_dict [(''bucket'', PyStr ''b1'')],
      cr_evidence_after = PyNone,
      cr_evidence_s3_key = None,
      cr_remediation_status = None,
      cr_remediation_approved_by = None,
      cr_remediation_executed_at = None,
      cr_remediation_details = PyDict [],
      cr_rollback_data = PyNone,
      cr_scan_id = Some ''scan-1'',
      cr_detected_at = Some 0,
      cr_resolved_at = None,
      cr_result_metadata = PyDict []\<rparr>"

definition example_log :: "string \<Rightarrow> AuditLog" where
  "example_log action =
     \<lparr>al_id = 1, al_control_result_id = None, al_event_type = ''detection'',
      al_action = action, al_actor = Some ''system'', al_cloud_account_id = Some 1,
      al_organization_id = Some 1, al_control_id = Some ''AWS-S3-001'',
      al_resource_id = None, al_event_data = PyDict [], al_before_state = PyNone,
      al_after_state = PyNone, al_ip_address = None, al_user_agent = None,
      al_timestamp = 0, al_success = Some ''success'', al_error_message = None\<rparr>"

definition example_world :: "ControlResult list \<Rightarrow> AuditLog list \<Rightarrow> world" where
  "example_world results logs =
     \<lparr>db = \<lparr>organizations = [\<lparr>org_id = 1, org_name = ''Demo Organization'',
                                org_compliance_frameworks = PyList [PyStr ''ISO27001'']\<rparr>],
             cloud_accounts = [example_account],
             control_results = results,
             audit_logs = logs\<rparr>,
      cloud = example_cloud,
      clock = 1,
      journal = []\<rparr>"

text \<open>
  No control of \<^verbatim>\<open>aws_controls.py\<close> overrides \<^verbatim>\<open>rollback\<close>. What is proved of
  a rollback that succeeds is evaluated at a control that does: AWS-S3-001 with a rollback
  that deletes the public access block, and a finding as a successful remediation of
  AWS-S3-001 leaves it.
\<close>

definition reversible_control :: control where
  "reversible_control =
     S3PublicAccessControl\<lparr>rollback := (\<lambda>cl c rollback_data.
        (Inr \<lparr>rr_success = True,
               rr_resource_id = PyStr ''arn:aws:s3:::b1'',
               rr_before_state = py_dict [(''blocked'', PyBool True)],
               rr_after_state = rollback_data,
               rr_rollback_data = PyNone,
               rr_error_message = None\<rparr>,
         c\<lparr>sent := sent c @ [(''s3'', ''delete_public_access_block'', rollback_data)]\<rparr>))\<rparr>"

definition example_fixed :: ControlResult where
  "example_fixed =
     (example_result 1 ''FIXED'')
       \<lparr>cr_remediation_status := Some ''executed'',
        cr_remediation_approved_by := Some ''a@x'',
        cr_remediation_executed_at := Some 0,
        cr_evidence_after := py_dict [(''blocked'', PyBool True)],
        cr_rollback_data := py_dict [(''bucket'', PyStr ''b1'')],
        cr_resolved_at := Some 0\<rparr>"

text \<open>The request \<^verbatim>\<open>S3PublicAccessControl.remediate\<close> sends for the bucket b1.\<close>

definition example_put_request :: api_request where
  "example_put_request =
     (''s3'', ''put_public_access_block'',
      py_dict [(''Bucket'', PyStr ''b1''),
               (''PublicAccessBlockConfiguration'',
                py_dict [(''BlockPublicAcls'', PyBool True),
                         (''BlockPublicPolicy'', PyBool True),
                         (''IgnorePublicAcls'', PyBool True),
                         (''RestrictPublicBuckets'', PyBool True)])])"

section \<open>Properties of the compliance score\<close>



lemma score_of_empty_scope:
  assumes "scoped_results account_id organization_id (db w) = []"
  shows "get_compliance_score account_id organization_id w =
           py_dict [(''score'', PyInt 0), (''total'', PyInt 0), (''pass'', PyInt 0),
                    (''fail'', PyInt 0), (''fixed'', PyInt 0)]"
  using assms by (simp add: get_compliance_score_def)





text \<open>
  Claim C10. When no row matches the requested scope, \<^verbatim>\<open>get_compliance_score\<close>
  returns score 0, total 0, pass 0, fail 0 and fixed 0 (no division takes place), and the
  dictionary it returns has no \<^verbatim>\<open>by_severity\<close> entry.
\<close>

theorem empty_scope_score:
  assumes "scoped_results account_id organization_id (db w) = []"
  shows "get_compliance_score account_id organization_id w =
           py_dict [(''score'', PyInt 0), (''total'', PyInt 0), (''pass'', PyInt 0),
                    (''fail'', PyInt 0), (''fixed'', PyInt 0)]
         \<and> dict_get (get_compliance_score account_id organization_id w) ''by_severity'' = None"
  using score_of_empty_scope [OF assms] by (simp add: py_dict_def)

text \<open>Claim C10 at a scope that selects nothing: account 7 of a database whose only row
  belongs to account 1.\<close>

theorem empty_scope_score_witness:
  "scoped_results (Some 7) None (db (example_world [example_result 1 ''FAIL''] [])) = []
   \<and> get_compliance_score (Some 7) None (example_world [example_result 1 ''FAIL''] []) =
       py_dict [(''score'', PyInt 0), (''total'', PyInt 0), (''pass'', PyInt 0),
                (''fail'', PyInt 0), (''fixed'', PyInt 0)]
   \<and> dict_get (get_compliance_score (Some 7) None (example_world [example_result 1 ''FAIL''] []))
        ''by_severity'' = None"
proof -
  have h: "scoped_results (Some 7) None (db (example_world [example_result 1 ''FAIL''] [])) = []"
    by (simp add: scoped_results_def example_world_def example_result_def)
  show ?thesis using h empty_scope_score [OF h] by (simp add: py_dict_def)
qed




section \<open>Properties of the audit log\<close>

lemma DetectionEngine_log_audit_logs:
  "audit_logs (db (DetectionEngine_log_audit event_type action kwargs w)) =
     audit_logs (db w) @
       [\<lparr>al_id = next_id (map al_id (audit_logs (db w))),
         al_control_result_id = None,
         al_event_type = event_type,
         al_action = action,
         al_actor = Some ''system'',
         al_cloud_account_id = kw_cloud_account_id kwargs,
         al_organization_id = kw_organization_id kwargs,
         al_control_id = kw_control_id kwargs,
         al_resource_id = kw_resource_id kwargs,
         al_event_data = (case kw_event_data kwargs of None \<Rightarrow> PyDict [] | Some d \<Rightarrow> d),
         al_before_state = PyNone,
         al_after_state = PyNone,
         al_ip_address = None,
         al_user_agent = None,
         al_timestamp = clock w,
         al_success = Some ''success'',
         al_error_message = None\<rparr>]"
  by (simp add: DetectionEngine_log_audit_def now_def commit_def Let_def)

lemma RemediationEngine_log_audit_logs:
  "audit_logs (db (RemediationEngine_log_audit event_type action actor kwargs w)) =
     audit_logs (db w) @
       [\<lparr>al_id = next_id (map al_id (audit_logs (db w))),
         al_control_result_id = kw_control_result_id kwargs,
         al_event_type = event_type,
         al_action = action,
         al_actor = Some actor,
         al_cloud_account_id = kw_cloud_account_id kwargs,
         al_organization_id = kw_organization_id kwargs,
         al_control_id = kw_control_id kwargs,
         al_resource_id = kw_resource_id kwargs,
         al_event_data = (case kw_event_data kwargs of None \<Rightarrow> PyDict [] | Some d \<Rightarrow> d),
         al_before_state = or_none (kw_before_state kwargs),
         al_after_state = or_none (kw_after_state kwargs),
         al_ip_address = None,
         al_user_agent = None,
         al_timestamp = clock w,
         al_success = Some (case kw_success kwargs of None \<Rightarrow> ''success'' | Some s \<Rightarrow> s),
         al_error_message = kw_error_message kwargs\<rparr>]"
  by (simp add: RemediationEngine_log_audit_def now_def commit_def Let_def)

lemma al_id_example_log: "al_id (example_log a) = 1"
  by (simp add: example_log_def)

text \<open>
  Claim C1, as stated, fails: the table of audit entries has no column for a previous
  hash or a hash, and the entry \<^verbatim>\<open>_log_audit\<close> writes is the same after two logs
  that differ in their last entry, so that nothing it stores is a digest of the entry
  before it.
\<close>

theorem audit_chain_counterexample:
  "''prev_hash'' \<notin> set AuditLog_columns \<and> ''prevHash'' \<notin> set AuditLog_columns
   \<and> ''hash'' \<notin> set AuditLog_columns
   \<and> audit_logs (db (example_world [] [example_log ''Control AWS-S3-001: FAIL''])) \<noteq>
       audit_logs (db (example_world [] [example_log ''Control AWS-S3-001: PASS'']))
   \<and> last (audit_logs (db (DetectionEngine_log_audit ''scan'' ''Completed scan s1'' no_kwargs
               (example_world [] [example_log ''Control AWS-S3-001: FAIL''])))) =
       last (audit_logs (db (DetectionEngine_log_audit ''scan'' ''Completed scan s1'' no_kwargs
               (example_world [] [example_log ''Control AWS-S3-001: PASS'']))))"
proof -
  have cols: "''prev_hash'' \<notin> set AuditLog_columns \<and> ''prevHash'' \<notin> set AuditLog_columns
      \<and> ''hash'' \<notin> set AuditLog_columns"
    by (simp add: AuditLog_columns_def)
  have differ: "audit_logs (db (example_world [] [example_log ''Control AWS-S3-001: FAIL''])) \<noteq>
       audit_logs (db (example_world [] [example_log ''Control AWS-S3-001: PASS'']))"
    by (simp add: example_world_def example_log_def)
  have same: "last (audit_logs (db (DetectionEngine_log_audit ''scan'' ''Completed scan s1'' no_kwargs
               (example_world [] [example_log ''Control AWS-S3-001: FAIL''])))) =
       last (audit_logs (db (DetectionEngine_log_audit ''scan'' ''Completed scan s1'' no_kwargs
               (example_world [] [example_log ''Control AWS-S3-001: PASS'']))))"
    by (simp add: DetectionEngine_log_audit_logs example_world_def al_id_example_log)
  from cols differ same show ?thesis by blast
qed

text \<open>
  Claim C1, amended. An audit entry written by either engine is appended after the
  existing entries, which stay as they are. It stores a fresh id, the reading of the
  clock, the event type, the action, the actor (the system for the Detection Engine), the
  outcome and the keyword fields of the call; it stores no hash, and none of its fields
  but the id depends on the entries before it.
\<close>

theorem audit_entries_are_appended:
  "audit_logs (db (DetectionEngine_log_audit event_type action kwargs w)) =
     audit_logs (db w) @
       [\<lparr>al_id = next_id (map al_id (audit_logs (db w))),
         al_control_result_id = None,
         al_event_type = event_type,
         al_action = action,
         al_actor = Some ''system'',
         al_cloud_account_id = kw_cloud_account_id kwargs,
         al_organization_id = kw_organization_id kwargs,
         al_control_id = kw_control_id kwargs,
         al_resource_id = kw_resource_id kwargs,
         al_event_data = (case kw_event_data kwargs of None \<Rightarrow> PyDict [] | Some d \<Rightarrow> d),
         al_before_state = PyNone,
         al_after_state = PyNone,
         al_ip_address = None,
         al_user_agent = None,
         al_timestamp = clock w,
         al_success = Some ''success'',
         al_error_message = None\<rparr>]
   \<and> audit_logs (db (RemediationEngine_log_audit event_type action actor kwargs w)) =
     audit_logs (db w) @
       [\<lparr>al_id = next_id (map al_id (audit_logs (db w))),
         al_control_result_id = kw_control_result_id kwargs,
         al_event_type = event_type,
         al_action = action,
         al_actor = Some actor,
         al_cloud_account_id = kw_cloud_account_id kwargs,
         al_organization_id = kw_organization_id kwargs,
         al_control_id = kw_control_id kwargs,
         al_resource_id = kw_resource_id kwargs,
         al_event_data = (case kw_event_data kwargs of None \<Rightarrow> PyDict [] | Some d \<Rightarrow> d),
         al_before_state = or_none (kw_before_state kwargs),
         al_after_state = or_none (kw_after_state kwargs),
         al_ip_address = None,
         al_user_agent = None,
         al_timestamp = clock w,
         al_success = Some (case kw_success kwargs of None \<Rightarrow> ''success'' | Some s \<Rightarrow> s),
         al_error_message = kw_error_message kwargs\<rparr>]"
  using DetectionEngine_log_audit_logs RemediationEngine_log_audit_logs by blast

section \<open>Properties of the Remediation Engine\<close>

lemma scalar_one_or_none_Some: "scalar_one_or_none xs = Inr (Some x) \<longleftrightarrow> xs = [x]"
  by (cases xs rule: scalar_one_or_none.cases) auto

lemma scalar_one_or_none_None: "scalar_one_or_none xs = Inr None \<longleftrightarrow> xs = []"
  by (cases xs rule: scalar_one_or_none.cases) auto

lemma remediate_finding_reaches_control:
  assumes "fst (remediate_finding catalog finding_id dry_run approved_by w) = Inr res"
  obtains fr account ctl rr c' where
    "filter (\<lambda>r. cr_id r = finding_id) (control_results (db w)) = [fr]"
    "cr_status fr = ''FAIL'' \<or> cr_status fr = ''ERROR''"
    "filter (\<lambda>a. ca_id a = cr_cloud_account_id fr) (cloud_accounts (db w)) = [account]"
    "find (\<lambda>c. control_id c = cr_control_id fr) catalog = Some ctl"
    "remediate ctl (client_for account) (cloud w) (finding_object fr) dry_run = (Inr rr, c')"
  using assms
  unfolding remediate_finding_def
  by (auto simp: scalar_one_or_none_Some Let_def
           split: sum.splits option.splits if_splits prod.splits)

lemma RemediationEngine_log_audit_frame:
  "control_results (db (RemediationEngine_log_audit et a actor kw w)) = control_results (db w)"
  "cloud_accounts (db (RemediationEngine_log_audit et a actor kw w)) = cloud_accounts (db w)"
  "organizations (db (RemediationEngine_log_audit et a actor kw w)) = organizations (db w)"
  "cloud (RemediationEngine_log_audit et a actor kw w) = cloud w"
  by (simp_all add: RemediationEngine_log_audit_def now_def commit_def Let_def)

lemma remediate_finding_dry_run:
  assumes "filter (\<lambda>r. cr_id r = finding_id) (control_results (db w)) = [fr]"
    and "cr_status fr = ''FAIL'' \<or> cr_status fr = ''ERROR''"
    and "filter (\<lambda>a. ca_id a = cr_cloud_account_id fr) (cloud_accounts (db w)) = [account]"
    and "find (\<lambda>c. control_id c = cr_control_id fr) catalog = Some ctl"
    and "remediate ctl (client_for account) (cloud w) (finding_object fr) True = (Inr rr, c')"
    and "rr_success rr"
  shows "remediate_finding catalog finding_id True approved_by w =
     (Inr (py_dict
        [(''success'', PyBool True),
         (''finding_id'', PyInt finding_id),
         (''control_id'', PyStr (cr_control_id fr)),
         (''dry_run'', PyBool True),
         (''resource_id'', opt_str (cr_resource_id fr)),
         (''before_state'', rr_before_state rr),
         (''after_state'', rr_after_state rr),
         (''message'', PyStr ''Remediation simulated successfully'')]),
      RemediationEngine_log_audit ''remediation''
        (''Dry-run remediation for '' @ cr_control_id fr)
        (actor_of approved_by)
        (no_kwargs\<lparr>kw_cloud_account_id := Some (ca_id account),
           kw_organization_id := Some (ca_organization_id account),
           kw_control_id := Some (cr_control_id fr),
           kw_resource_id := cr_resource_id fr,
           kw_control_result_id := Some finding_id,
           kw_before_state := Some (rr_before_state rr),
           kw_after_state := Some (rr_after_state rr),
           kw_event_data := Some (py_dict
             [(''dry_run'', PyBool True),
              (''success'', PyBool True),
              (''finding_id'', PyInt finding_id)])\<rparr>)
        (w\<lparr>journal := journal w @ [Invoke (control_id ctl) ''remediate''], cloud := c'\<rparr>))"
  using assms by (auto simp: remediate_finding_def Let_def)

lemma remediate_finding_failed_result:
  assumes "filter (\<lambda>r. cr_id r = finding_id) (control_results (db w)) = [fr]"
    and "cr_status fr = ''FAIL'' \<or> cr_status fr = ''ERROR''"
    and "filter (\<lambda>a. ca_id a = cr_cloud_account_id fr) (cloud_accounts (db w)) = [account]"
    and "find (\<lambda>c. control_id c = cr_control_id fr) catalog = Some ctl"
    and "remediate ctl (client_for account) (cloud w) (finding_object fr) dry_run = (Inr rr, c')"
    and "\<not> rr_success rr"
  shows "fst (remediate_finding catalog finding_id dry_run approved_by w) =
     Inr (py_dict [(''success'', PyBool False), (''finding_id'', PyInt finding_id),
                   (''error'', opt_str (rr_error_message rr))])"
  using assms by (auto simp: remediate_finding_def Let_def)

text \<open>
  Claim C8. When \<^verbatim>\<open>remediate_finding\<close> with \<^verbatim>\<open>dry_run=True\<close> returns a
  successful result, the table of findings is what it was before the call (no field of
  any finding changes), exactly one audit entry is appended, of event type remediation
  and with \<^verbatim>\<open>dry_run\<close> true in its event data, and the \<^verbatim>\<open>after_state\<close> of the
  result is the one the control's \<^verbatim>\<open>remediate\<close> projected for the dry run.
\<close>

theorem dry_run_leaves_finding_unchanged:
  assumes "fst (remediate_finding catalog finding_id True approved_by w) = Inr res"
      and "dict_get res ''success'' = Some (PyBool True)"
  shows "control_results (db (snd (remediate_finding catalog finding_id True approved_by w))) =
           control_results (db w)
       \<and> (\<exists>e. audit_logs (db (snd (remediate_finding catalog finding_id True approved_by w))) =
                 audit_logs (db w) @ [e]
              \<and> al_event_type e = ''remediation''
              \<and> dict_get (al_event_data e) ''dry_run'' = Some (PyBool True))
       \<and> (\<exists>fr account ctl rr c'.
              filter (\<lambda>r. cr_id r = finding_id) (control_results (db w)) = [fr]
            \<and> filter (\<lambda>a. ca_id a = cr_cloud_account_id fr) (cloud_accounts (db w)) = [account]
            \<and> find (\<lambda>c. control_id c = cr_control_id fr) catalog = Some ctl
            \<and> remediate ctl (client_for account) (cloud w) (finding_object fr) True = (Inr rr, c')
            \<and> dict_get res ''after_state'' = Some (rr_after_state rr))"
proof -
  from assms(1) obtain fr account ctl rr c' where
    fr: "filter (\<lambda>r. cr_id r = finding_id) (control_results (db w)) = [fr]"
    and st: "cr_status fr = ''FAIL'' \<or> cr_status fr = ''ERROR''"
    and acc: "filter (\<lambda>a. ca_id a = cr_cloud_account_id fr) (cloud_accounts (db w)) = [account]"
    and ctl: "find (\<lambda>c. control_id c = cr_control_id fr) catalog = Some ctl"
    and rem: "remediate ctl (client_for account) (cloud w) (finding_object fr) True = (Inr rr, c')"
    by (rule remediate_finding_reaches_control)
  have ok: "rr_success rr"
  proof (rule ccontr)
    assume "\<not> rr_success rr"
    from remediate_finding_failed_result [OF fr st acc ctl rem this] assms
    show False by (auto simp: py_dict_def)
  qed
  note run = remediate_finding_dry_run [OF fr st acc ctl rem ok]
  have res: "res = py_dict
        [(''success'', PyBool True),
         (''finding_id'', PyInt finding_id),
         (''control_id'', PyStr (cr_control_id fr)),
         (''dry_run'', PyBool True),
         (''resource_id'', opt_str (cr_resource_id fr)),
         (''before_state'', rr_before_state rr),
         (''after_state'', rr_after_state rr),
         (''message'', PyStr ''Remediation simulated successfully'')]"
    using assms(1) run by simp
  have 1: "control_results (db (snd (remediate_finding catalog finding_id True approved_by w))) =
           control_results (db w)"
    by (simp add: run RemediationEngine_log_audit_frame)
  have 2: "\<exists>e. audit_logs (db (snd (remediate_finding catalog finding_id True approved_by w))) =
                 audit_logs (db w) @ [e]
              \<and> al_event_type e = ''remediation''
              \<and> dict_get (al_event_data e) ''dry_run'' = Some (PyBool True)"
    by (simp add: run RemediationEngine_log_audit_logs py_dict_def)
  have 3: "dict_get res ''after_state'' = Some (rr_after_state rr)"
    by (simp add: res py_dict_def)
  from 1 2 3 fr acc ctl rem show ?thesis by blast
qed

lemma str_int_1: "str_int 1 = ''1''"
  by code_simp

lemma example_lookup:
  "filter (\<lambda>r. cr_id r = 1) (control_results (db (example_world [example_result 1 s] logs))) =
     [example_result 1 s]"
  "filter (\<lambda>a. ca_id a = cr_cloud_account_id (example_result 1 s))
     (cloud_accounts (db (example_world rs logs))) = [example_account]"
  "find (\<lambda>c. control_id c = cr_control_id (example_result 1 s)) [S3PublicAccessControl] =
     Some S3PublicAccessControl"
  by (simp_all add: example_world_def example_result_def example_account_def
        S3PublicAccessControl_def)

lemma example_dry_run:
  "remediate S3PublicAccessControl (client_for example_account)
     (cloud (example_world rs logs)) (finding_object (example_result 1 s)) True =
   (Inr (blocked_result (finding_object (example_result 1 s))), example_cloud)"
  by (simp add: S3PublicAccessControl_def S3PublicAccess_remediate_def example_world_def)

text \<open>Claim C8 at a dry run of AWS-S3-001 on a FAIL finding of the bucket b1.\<close>

theorem dry_run_leaves_finding_unchanged_witness:
  "fst (remediate_finding [S3PublicAccessControl] 1 True None
          (example_world [example_result 1 ''FAIL''] [])) =
     Inr (py_dict
        [(''success'', PyBool True),
         (''finding_id'', PyInt 1),
         (''control_id'', PyStr ''AWS-S3-001''),
         (''dry_run'', PyBool True),
         (''resource_id'', PyStr ''arn:aws:s3:::b1''),
         (''before_state'', py_dict [(''bucket'', PyStr ''b1'')]),
         (''after_state'', py_dict [(''blocked'', PyBool True)]),
         (''message'', PyStr ''Remediation simulated successfully'')])
   \<and> control_results (db (snd (remediate_finding [S3PublicAccessControl] 1 True None
          (example_world [example_result 1 ''FAIL''] [])))) = [example_result 1 ''FAIL'']
   \<and> (\<exists>e. audit_logs (db (snd (remediate_finding [S3PublicAccessControl] 1 True None
                 (example_world [example_result 1 ''FAIL''] [])))) = [e]
          \<and> al_event_type e = ''remediation''
          \<and> dict_get (al_event_data e) ''dry_run'' = Some (PyBool True))"
proof -
  let ?w = "example_world [example_result 1 ''FAIL''] []"
  let ?res = "py_dict
        [(''success'', PyBool True),
         (''finding_id'', PyInt 1),
         (''control_id'', PyStr ''AWS-S3-001''),
         (''dry_run'', PyBool True),
         (''resource_id'', PyStr ''arn:aws:s3:::b1''),
         (''before_state'', py_dict [(''bucket'', PyStr ''b1'')]),
         (''after_state'', py_dict [(''blocked'', PyBool True)]),
         (''message'', PyStr ''Remediation simulated successfully'')]"
  have ok: "rr_success (blocked_result (finding_object (example_result 1 ''FAIL'')))"
    by (simp add: blocked_result_def)
  have st: "cr_status (example_result 1 ''FAIL'') = ''FAIL'' \<or>
            cr_status (example_result 1 ''FAIL'') = ''ERROR''"
    by (simp add: example_result_def)
  have h1: "fst (remediate_finding [S3PublicAccessControl] 1 True None ?w) = Inr ?res"
    by (simp add: remediate_finding_dry_run
          [OF example_lookup(1) st example_lookup(2) example_lookup(3) example_dry_run ok])
       (simp add: example_result_def blocked_result_def finding_object_def opt_str_def)
  have h2: "dict_get ?res ''success'' = Some (PyBool True)"
    by (simp add: py_dict_def)
  have db: "control_results (db ?w) = [example_result 1 ''FAIL'']" "audit_logs (db ?w) = []"
    by (simp_all add: example_world_def)
  show ?thesis
    using h1 dry_run_leaves_finding_unchanged [OF h1 h2] unfolding db by simp
qed

lemma remediate_finding_executed:
  assumes "filter (\<lambda>r. cr_id r = finding_id) (control_results (db w)) = [fr]"
    and "cr_status fr = ''FAIL'' \<or> cr_status fr = ''ERROR''"
    and "filter (\<lambda>a. ca_id a = cr_cloud_account_id fr) (cloud_accounts (db w)) = [account]"
    and "find (\<lambda>c. control_id c = cr_control_id fr) catalog = Some ctl"
    and "remediate ctl (client_for account) (cloud w) (finding_object fr) False = (Inr rr, c')"
    and "rr_success rr"
  shows "remediate_finding catalog finding_id False approved_by w =
     (Inr (py_dict
        [(''success'', PyBool True),
         (''finding_id'', PyInt finding_id),
         (''control_id'', PyStr (cr_control_id fr)),
         (''dry_run'', PyBool False),
         (''resource_id'', opt_str (cr_resource_id fr)),
         (''before_state'', rr_before_state rr),
         (''after_state'', rr_after_state rr),
         (''message'', PyStr ''Remediation executed successfully'')]),
      RemediationEngine_log_audit ''remediation''
        (''Executed remediation for '' @ cr_control_id fr)
        (actor_of approved_by)
        (no_kwargs\<lparr>kw_cloud_account_id := Some (ca_id account),
           kw_organization_id := Some (ca_organization_id account),
           kw_control_id := Some (cr_control_id fr),
           kw_resource_id := cr_resource_id fr,
           kw_control_result_id := Some finding_id,
           kw_before_state := Some (rr_before_state rr),
           kw_after_state := Some (rr_after_state rr),
           kw_event_data := Some (py_dict
             [(''dry_run'', PyBool False),
              (''success'', PyBool True),
              (''finding_id'', PyInt finding_id)])\<rparr>)
        (commit (update_result finding_id
                   (\<lambda>r. r\<lparr>cr_status := ''FIXED'',
                         cr_remediation_status := Some ''executed'',
                         cr_remediation_approved_by := approved_by,
                         cr_remediation_executed_at := Some (clock w),
                         cr_evidence_after := rr_after_state rr,
                         cr_rollback_data := rr_rollback_data rr,
                         cr_resolved_at := Some (Suc (clock w))\<rparr>) (db w))
           (w\<lparr>journal := journal w @ [Invoke (control_id ctl) ''remediate''], cloud := c',
               clock := Suc (Suc (clock w))\<rparr>)))"
  using assms by (auto simp: remediate_finding_def Let_def now_def)

lemma remediate_finding_rejects_status:
  assumes "filter (\<lambda>r. cr_id r = finding_id) (control_results (db w)) = [fr]"
    and "cr_status fr \<noteq> ''FAIL''" and "cr_status fr \<noteq> ''ERROR''"
  shows "remediate_finding catalog finding_id dry_run approved_by w =
     (Inl (ValueError (''Finding '' @ str_int finding_id @ '' is not in remediable state'')), w)"
  using assms by (simp add: remediate_finding_def)

lemma filter_id_update:
  assumes "\<And>r. cr_id (f r) = cr_id r"
  shows "filter (\<lambda>r. cr_id r = i) (map (\<lambda>r. if cr_id r = i then f r else r) rs) =
         map f (filter (\<lambda>r. cr_id r = i) rs)"
  using assms by (induction rs) auto

lemma update_result_lookup:
  assumes "\<And>r. cr_id (f r) = cr_id r"
    and "filter (\<lambda>r. cr_id r = i) (control_results d) = [fr]"
  shows "filter (\<lambda>r. cr_id r = i) (control_results (update_result i f d)) = [f fr]"
  using assms by (simp add: update_result_def filter_id_update)

lemma commit_db: "db (commit d w) = d"
  by (simp add: commit_def)

lemma second_remediation_rejected:
  assumes "fst (remediate_finding catalog finding_id False approved_by w) = Inr res"
      and "dict_get res ''success'' = Some (PyBool True)"
  shows "remediate_finding catalog finding_id dry_run' approved_by'
           (snd (remediate_finding catalog finding_id False approved_by w)) =
         (Inl (ValueError (''Finding '' @ str_int finding_id @ '' is not in remediable state'')),
          snd (remediate_finding catalog finding_id False approved_by w))"
proof -
  from assms(1) obtain fr account ctl rr c' where
    fr: "filter (\<lambda>r. cr_id r = finding_id) (control_results (db w)) = [fr]"
    and st: "cr_status fr = ''FAIL'' \<or> cr_status fr = ''ERROR''"
    and acc: "filter (\<lambda>a. ca_id a = cr_cloud_account_id fr) (cloud_accounts (db w)) = [account]"
    and ctl: "find (\<lambda>c. control_id c = cr_control_id fr) catalog = Some ctl"
    and rem: "remediate ctl (client_for account) (cloud w) (finding_object fr) False = (Inr rr, c')"
    by (rule remediate_finding_reaches_control)
  have ok: "rr_success rr"
  proof (rule ccontr)
    assume "\<not> rr_success rr"
    from remediate_finding_failed_result [OF fr st acc ctl rem this] assms
    show False by (auto simp: py_dict_def)
  qed
  note run = remediate_finding_executed [OF fr st acc ctl rem ok]
  let ?f = "\<lambda>r. r\<lparr>cr_status := ''FIXED'',
                         cr_remediation_status := Some ''executed'',
                         cr_remediation_approved_by := approved_by,
                         cr_remediation_executed_at := Some (clock w),
                         cr_evidence_after := rr_after_state rr,
                         cr_rollback_data := rr_rollback_data rr,
                         cr_resolved_at := Some (Suc (clock w))\<rparr>"
  have look: "filter (\<lambda>r. cr_id r = finding_id)
      (control_results (db (snd (remediate_finding catalog finding_id False approved_by w)))) =
      [?f fr]"
    by (simp add: run RemediationEngine_log_audit_frame commit_db update_result_lookup [OF _ fr])
  show ?thesis
    by (rule remediate_finding_rejects_status [OF look]) simp_all
qed

lemma map_of_dict_set_same: "map_of (dict_set kvs k v) k = Some v"
  by (induction kvs) auto

lemma map_of_dict_set_other: "k' \<noteq> k \<Longrightarrow> map_of (dict_set kvs k v) k' = map_of kvs k'"
  by (induction kvs) auto

lemma rolled_back_details_get:
  "dict_get (rolled_back_details (PyDict kvs) t actor) ''rolled_back_at'' = Some (PyStr t)"
  "dict_get (rolled_back_details (PyDict kvs) t actor) ''rolled_back_by'' = Some (PyStr actor)"
  by (simp_all add: rolled_back_details_def map_of_dict_set_same map_of_dict_set_other)

lemma rollback_remediation_reaches_control:
  assumes "fst (rollback_remediation catalog finding_id rolled_back_by w) = Inr res"
  obtains fr account ctl rr c' where
    "filter (\<lambda>r. cr_id r = finding_id) (control_results (db w)) = [fr]"
    "cr_status fr = ''FIXED''"
    "truthy (cr_rollback_data fr)"
    "filter (\<lambda>a. ca_id a = cr_cloud_account_id fr) (cloud_accounts (db w)) = [account]"
    "find (\<lambda>c. control_id c = cr_control_id fr) catalog = Some ctl"
    "rollback ctl (client_for account) (cloud w) (cr_rollback_data fr) = (Inr rr, c')"
  using assms
  unfolding rollback_remediation_def
  by (auto simp: scalar_one_or_none_Some Let_def
           split: sum.splits option.splits if_splits prod.splits)

lemma rollback_remediation_failed_result:
  assumes "filter (\<lambda>r. cr_id r = finding_id) (control_results (db w)) = [fr]"
    and "cr_status fr = ''FIXED''"
    and "truthy (cr_rollback_data fr)"
    and "filter (\<lambda>a. ca_id a = cr_cloud_account_id fr) (cloud_accounts (db w)) = [account]"
    and "find (\<lambda>c. control_id c = cr_control_id fr) catalog = Some ctl"
    and "rollback ctl (client_for account) (cloud w) (cr_rollback_data fr) = (Inr rr, c')"
    and "\<not> rr_success rr"
  shows "rollback_remediation catalog finding_id rolled_back_by w =
     (Inr (py_dict [(''success'', PyBool False), (''finding_id'', PyInt finding_id),
                    (''error'', opt_str (rr_error_message rr))]),
      w\<lparr>journal := journal w @ [Invoke (control_id ctl) ''rollback''], cloud := c'\<rparr>)"
  using assms by (auto simp: rollback_remediation_def Let_def)

lemma rollback_remediation_not_a_mapping:
  assumes "filter (\<lambda>r. cr_id r = finding_id) (control_results (db w)) = [fr]"
    and "cr_status fr = ''FIXED''"
    and "truthy (cr_rollback_data fr)"
    and "filter (\<lambda>a. ca_id a = cr_cloud_account_id fr) (cloud_accounts (db w)) = [account]"
    and "find (\<lambda>c. control_id c = cr_control_id fr) catalog = Some ctl"
    and "rollback ctl (client_for account) (cloud w) (cr_rollback_data fr) = (Inr rr, c')"
    and "rr_success rr"
    and "\<And>kvs. cr_remediation_details fr \<noteq> PyDict kvs"
  shows "\<exists>e. fst (rollback_remediation catalog finding_id rolled_back_by w) = Inl e"
  using assms by (auto simp: rollback_remediation_def Let_def split: pyval.splits)

lemma rollback_remediation_rolled_back:
  assumes "filter (\<lambda>r. cr_id r = finding_id) (control_results (db w)) = [fr]"
    and "cr_status fr = ''FIXED''"
    and "truthy (cr_rollback_data fr)"
    and "filter (\<lambda>a. ca_id a = cr_cloud_account_id fr) (cloud_accounts (db w)) = [account]"
    and "find (\<lambda>c. control_id c = cr_control_id fr) catalog = Some ctl"
    and "rollback ctl (client_for account) (cloud w) (cr_rollback_data fr) = (Inr rr, c')"
    and "rr_success rr"
    and "cr_remediation_details fr = PyDict kvs"
  shows "rollback_remediation catalog finding_id rolled_back_by w =
     (Inr (py_dict
        [(''success'', PyBool True),
         (''finding_id'', PyInt finding_id),
         (''message'', PyStr ''Remediation rolled back successfully'')]),
      RemediationEngine_log_audit ''rollback''
        (''Rolled back remediation for '' @ cr_control_id fr)
        rolled_back_by
        (no_kwargs\<lparr>kw_cloud_account_id := Some (ca_id account),
           kw_control_id := Some (cr_control_id fr),
           kw_resource_id := cr_resource_id fr,
           kw_control_result_id := Some finding_id,
           kw_event_data := Some (py_dict
             [(''finding_id'', PyInt finding_id),
              (''success'', PyBool True)])\<rparr>)
        (commit (update_result finding_id
                   (\<lambda>r. r\<lparr>cr_status := ''FAIL'',
                         cr_remediation_status := Some ''rolled_back'',
                         cr_remediation_details :=
                           rolled_back_details (PyDict kvs) (isoformat (clock w)) rolled_back_by\<rparr>)
                   (db w))
           (w\<lparr>journal := journal w @ [Invoke (control_id ctl) ''rollback''], cloud := c',
               clock := Suc (clock w)\<rparr>)))"
  using assms by (auto simp: rollback_remediation_def Let_def now_def)

lemma rollback_remediation_rejects:
  assumes "filter (\<lambda>r. cr_id r = finding_id) (control_results (db w)) = [fr]"
    and "cr_status fr \<noteq> ''FIXED'' \<or> \<not> truthy (cr_rollback_data fr)"
  shows "rollback_remediation catalog finding_id rolled_back_by w =
     (Inl (ValueError (if cr_status fr \<noteq> ''FIXED''
             then ''Finding '' @ str_int finding_id @ '' not in rollback-able state''
             else ''No rollback data available for finding '' @ str_int finding_id)), w)"
  using assms by (auto simp: rollback_remediation_def)

lemma second_rollback_rejected:
  assumes "fst (rollback_remediation catalog finding_id rolled_back_by w) = Inr res"
      and "dict_get res ''success'' = Some (PyBool True)"
  shows "rollback_remediation catalog finding_id rolled_back_by'
           (snd (rollback_remediation catalog finding_id rolled_back_by w)) =
         (Inl (ValueError (''Finding '' @ str_int finding_id @ '' not in rollback-able state'')),
          snd (rollback_remediation catalog finding_id rolled_back_by w))"
    and "\<exists>fr d. filter (\<lambda>r. cr_id r = finding_id) (control_results (db w)) = [fr]
          \<and> cr_status fr = ''FIXED'' \<and> truthy (cr_rollback_data fr)
          \<and> control_results (db (snd (rollback_remediation catalog finding_id rolled_back_by w))) =
              map (\<lambda>r. if cr_id r = finding_id
                        then r\<lparr>cr_status := ''FAIL'',
                               cr_remediation_status := Some ''rolled_back'',
                               cr_remediation_details := d\<rparr>
                        else r) (control_results (db w))
          \<and> filter (\<lambda>r. cr_id r = finding_id)
                (control_results (db (snd (rollback_remediation catalog finding_id rolled_back_by w)))) =
              [fr\<lparr>cr_status := ''FAIL'',
                  cr_remediation_status := Some ''rolled_back'',
                  cr_remediation_details := d\<rparr>]
          \<and> dict_get d ''rolled_back_at'' = Some (PyStr (isoformat (clock w)))
          \<and> dict_get d ''rolled_back_by'' = Some (PyStr rolled_back_by)
          \<and> (\<exists>e. audit_logs (db (snd (rollback_remediation catalog finding_id rolled_back_by w))) =
                   audit_logs (db w) @ [e]
                 \<and> al_event_type e = ''rollback'' \<and> al_actor e = Some rolled_back_by)"
proof -
  from assms(1) obtain fr account ctl rr c' where
    fr: "filter (\<lambda>r. cr_id r = finding_id) (control_results (db w)) = [fr]"
    and st: "cr_status fr = ''FIXED''"
    and rd: "truthy (cr_rollback_data fr)"
    and acc: "filter (\<lambda>a. ca_id a = cr_cloud_account_id fr) (cloud_accounts (db w)) = [account]"
    and ctl: "find (\<lambda>c. control_id c = cr_control_id fr) catalog = Some ctl"
    and rb: "rollback ctl (client_for account) (cloud w) (cr_rollback_data fr) = (Inr rr, c')"
    by (rule rollback_remediation_reaches_control)
  have ok: "rr_success rr"
  proof (rule ccontr)
    assume "\<not> rr_success rr"
    from rollback_remediation_failed_result [OF fr st rd acc ctl rb this] assms
    show False by (auto simp: py_dict_def)
  qed
  obtain kvs where kvs: "cr_remediation_details fr = PyDict kvs"
  proof (rule ccontr)
    assume "\<not> thesis"
    with that have "\<And>kvs. cr_remediation_details fr \<noteq> PyDict kvs" by blast
    from rollback_remediation_not_a_mapping
      [OF fr st rd acc ctl rb ok this, where rolled_back_by = rolled_back_by] assms(1)
    show False by auto
  qed
  note run = rollback_remediation_rolled_back [OF fr st rd acc ctl rb ok kvs]
  let ?d = "rolled_back_details (PyDict kvs) (isoformat (clock w)) rolled_back_by"
  let ?f = "\<lambda>r. r\<lparr>cr_status := ''FAIL'',
                  cr_remediation_status := Some ''rolled_back'',
                  cr_remediation_details := ?d\<rparr>"
  have tab: "control_results (db (snd (rollback_remediation catalog finding_id rolled_back_by w))) =
      map (\<lambda>r. if cr_id r = finding_id then ?f r else r) (control_results (db w))"
    by (simp add: run RemediationEngine_log_audit_frame commit_db update_result_def)
  have look: "filter (\<lambda>r. cr_id r = finding_id)
      (control_results (db (snd (rollback_remediation catalog finding_id rolled_back_by w)))) =
      [?f fr]"
    by (simp add: run RemediationEngine_log_audit_frame commit_db update_result_lookup [OF _ fr])
  have "cr_status (?f fr) \<noteq> ''FIXED'' \<or> \<not> truthy (cr_rollback_data (?f fr))"
    by simp
  from rollback_remediation_rejects [OF look this]
  show "rollback_remediation catalog finding_id rolled_back_by'
           (snd (rollback_remediation catalog finding_id rolled_back_by w)) =
         (Inl (ValueError (''Finding '' @ str_int finding_id @ '' not in rollback-able state'')),
          snd (rollback_remediation catalog finding_id rolled_back_by w))"
    by simp
  have log: "\<exists>e. audit_logs (db (snd (rollback_remediation catalog finding_id rolled_back_by w))) =
                   audit_logs (db w) @ [e]
                 \<and> al_event_type e = ''rollback'' \<and> al_actor e = Some rolled_back_by"
    by (simp add: run RemediationEngine_log_audit_logs commit_db update_result_def)
  from fr st rd tab look log rolled_back_details_get [of kvs "isoformat (clock w)" rolled_back_by]
  show "\<exists>fr d. filter (\<lambda>r. cr_id r = finding_id) (control_results (db w)) = [fr]
          \<and> cr_status fr = ''FIXED'' \<and> truthy (cr_rollback_data fr)
          \<and> control_results (db (snd (rollback_remediation catalog finding_id rolled_back_by w))) =
              map (\<lambda>r. if cr_id r = finding_id
                        then r\<lparr>cr_status := ''FAIL'',
                               cr_remediation_status := Some ''rolled_back'',
                               cr_remediation_details := d\<rparr>
                        else r) (control_results (db w))
          \<and> filter (\<lambda>r. cr_id r = finding_id)
                (control_results (db (snd (rollback_remediation catalog finding_id rolled_back_by w)))) =
              [fr\<lparr>cr_status := ''FAIL'',
                  cr_remediation_status := Some ''rolled_back'',
                  cr_remediation_details := d\<rparr>]
          \<and> dict_get d ''rolled_back_at'' = Some (PyStr (isoformat (clock w)))
          \<and> dict_get d ''rolled_back_by'' = Some (PyStr rolled_back_by)
          \<and> (\<exists>e. audit_logs (db (snd (rollback_remediation catalog finding_id rolled_back_by w))) =
                   audit_logs (db w) @ [e]
                 \<and> al_event_type e = ''rollback'' \<and> al_actor e = Some rolled_back_by)"
    by blast
qed

lemma rollback_remediation_not_found:
  assumes "filter (\<lambda>r. cr_id r = finding_id) (control_results (db w)) = []"
  shows "rollback_remediation catalog finding_id rolled_back_by w =
     (Inl (ValueError (''Finding '' @ str_int finding_id @ '' not in rollback-able state'')), w)"
  using assms by (simp add: rollback_remediation_def)

text \<open>
  Claim C6. When \<^verbatim>\<open>rollback_remediation\<close> returns a successful result, the finding
  was FIXED with rollback data; afterwards its status is FAIL, its remediation status is
  \<^verbatim>\<open>rolled_back\<close>, its remediation details hold \<^verbatim>\<open>rolled_back_at\<close> (the time
  of the call) and \<^verbatim>\<open>rolled_back_by\<close> (the actor), every other field of it, with
  \<^verbatim>\<open>evidence_after\<close> and \<^verbatim>\<open>rollback_data\<close>, and every other finding is
  unchanged, and one audit entry of event type rollback is appended. A rollback of a
  finding that is not FIXED, or whose rollback data is null, raises a
  \<^verbatim>\<open>ValueError\<close> and leaves the world (database, provider, clock and journal) as it
  was.
\<close>

theorem rollback_effect_and_rejection:
  "(fst (rollback_remediation catalog finding_id rolled_back_by w) = Inr res \<and>
    dict_get res ''success'' = Some (PyBool True) \<longrightarrow>
      (\<exists>fr d. filter (\<lambda>r. cr_id r = finding_id) (control_results (db w)) = [fr]
          \<and> cr_status fr = ''FIXED'' \<and> truthy (cr_rollback_data fr)
          \<and> control_results (db (snd (rollback_remediation catalog finding_id rolled_back_by w))) =
              map (\<lambda>r. if cr_id r = finding_id
                        then r\<lparr>cr_status := ''FAIL'',
                               cr_remediation_status := Some ''rolled_back'',
                               cr_remediation_details := d\<rparr>
                        else r) (control_results (db w))
          \<and> filter (\<lambda>r. cr_id r = finding_id)
                (control_results (db (snd (rollback_remediation catalog finding_id rolled_back_by w)))) =
              [fr\<lparr>cr_status := ''FAIL'',
                  cr_remediation_status := Some ''rolled_back'',
                  cr_remediation_details := d\<rparr>]
          \<and> dict_get d ''rolled_back_at'' = Some (PyStr (isoformat (clock w)))
          \<and> dict_get d ''rolled_back_by'' = Some (PyStr rolled_back_by)
          \<and> (\<exists>e. audit_logs (db (snd (rollback_remediation catalog finding_id rolled_back_by w))) =
                   audit_logs (db w) @ [e]
                 \<and> al_event_type e = ''rollback'' \<and> al_actor e = Some rolled_back_by)))
   \<and> (filter (\<lambda>r. cr_id r = finding_id) (control_results (db w)) = [fr'] \<and>
       (cr_status fr' \<noteq> ''FIXED'' \<or> cr_rollback_data fr' = PyNone) \<longrightarrow>
         (\<exists>m. rollback_remediation catalog finding_id rolled_back_by w = (Inl (ValueError m), w)))"
proof (intro conjI impI)
  assume "fst (rollback_remediation catalog finding_id rolled_back_by w) = Inr res \<and>
    dict_get res ''success'' = Some (PyBool True)"
  then show "\<exists>fr d. filter (\<lambda>r. cr_id r = finding_id) (control_results (db w)) = [fr]
          \<and> cr_status fr = ''FIXED'' \<and> truthy (cr_rollback_data fr)
          \<and> control_results (db (snd (rollback_remediation catalog finding_id rolled_back_by w))) =
              map (\<lambda>r. if cr_id r = finding_id
                        then r\<lparr>cr_status := ''FAIL'',
                               cr_remediation_status := Some ''rolled_back'',
                               cr_remediation_details := d\<rparr>
                        else r) (control_results (db w))
          \<and> filter (\<lambda>r. cr_id r = finding_id)
                (control_results (db (snd (rollback_remediation catalog finding_id rolled_back_by w)))) =
              [fr\<lparr>cr_status := ''FAIL'',
                  cr_remediation_status := Some ''rolled_back'',
                  cr_remediation_details := d\<rparr>]
          \<and> dict_get d ''rolled_back_at'' = Some (PyStr (isoformat (clock w)))
          \<and> dict_get d ''rolled_back_by'' = Some (PyStr rolled_back_by)
          \<and> (\<exists>e. audit_logs (db (snd (rollback_remediation catalog finding_id rolled_back_by w))) =
                   audit_logs (db w) @ [e]
                 \<and> al_event_type e = ''rollback'' \<and> al_actor e = Some rolled_back_by)"
    using second_rollback_rejected(2) by blast
next
  assume a: "filter (\<lambda>r. cr_id r = finding_id) (control_results (db w)) = [fr'] \<and>
       (cr_status fr' \<noteq> ''FIXED'' \<or> cr_rollback_data fr' = PyNone)"
  then have "cr_status fr' \<noteq> ''FIXED'' \<or> \<not> truthy (cr_rollback_data fr')" by auto
  with a rollback_remediation_rejects
  show "\<exists>m. rollback_remediation catalog finding_id rolled_back_by w = (Inl (ValueError m), w)"
    by blast
qed

lemma example_fixed_lookup:
  "filter (\<lambda>r. cr_id r = 1) (control_results (db (example_world [example_fixed] logs))) =
     [example_fixed]"
  "filter (\<lambda>a. ca_id a = cr_cloud_account_id example_fixed)
     (cloud_accounts (db (example_world rs logs))) = [example_account]"
  "find (\<lambda>c. control_id c = cr_control_id example_fixed) [reversible_control] =
     Some reversible_control"
  "cr_status example_fixed = ''FIXED''"
  "truthy (cr_rollback_data example_fixed)"
  "cr_remediation_details example_fixed = PyDict []"
  by (simp_all add: example_world_def example_result_def example_account_def example_fixed_def
        S3PublicAccessControl_def reversible_control_def py_dict_def)

lemma example_rollback:
  "rollback reversible_control (client_for example_account)
     (cloud (example_world rs logs)) (cr_rollback_data example_fixed) =
   (Inr \<lparr>rr_success = True,
          rr_resource_id = PyStr ''arn:aws:s3:::b1'',
          rr_before_state = py_dict [(''blocked'', PyBool True)],
          rr_after_state = cr_rollback_data example_fixed,
          rr_rollback_data = PyNone,
          rr_error_message = None\<rparr>,
    example_cloud\<lparr>sent := [(''s3'', ''delete_public_access_block'', cr_rollback_data example_fixed)]\<rparr>)"
  by (simp add: reversible_control_def example_world_def example_cloud_def)

text \<open>Claim C6 at a rollback by a control that implements it, on a FIXED finding, and at
  a rollback request on a FAIL finding.\<close>

theorem rollback_effect_and_rejection_witness:
  "fst (rollback_remediation [reversible_control] 1 ''a@x'' (example_world [example_fixed] [])) =
     Inr (py_dict [(''success'', PyBool True), (''finding_id'', PyInt 1),
                   (''message'', PyStr ''Remediation rolled back successfully'')])
   \<and> (\<exists>d. control_results (db (snd (rollback_remediation [reversible_control] 1 ''a@x''
                (example_world [example_fixed] [])))) =
            [example_fixed\<lparr>cr_status := ''FAIL'',
                cr_remediation_status := Some ''rolled_back'',
                cr_remediation_details := d\<rparr>]
          \<and> dict_get d ''rolled_back_at'' = Some (PyStr ''1'')
          \<and> dict_get d ''rolled_back_by'' = Some (PyStr ''a@x''))
   \<and> (\<exists>e. audit_logs (db (snd (rollback_remediation [reversible_control] 1 ''a@x''
                (example_world [example_fixed] [])))) = [e]
          \<and> al_event_type e = ''rollback'' \<and> al_actor e = Some ''a@x'')
   \<and> (\<exists>m. rollback_remediation [S3PublicAccessControl] 1 ''a@x''
            (example_world [example_result 1 ''FAIL''] []) =
          (Inl (ValueError m), example_world [example_result 1 ''FAIL''] []))"
proof -
  let ?w = "example_world [example_fixed] []"
  let ?res = "py_dict [(''success'', PyBool True), (''finding_id'', PyInt 1),
                   (''message'', PyStr ''Remediation rolled back successfully'')]"
  have h1: "fst (rollback_remediation [reversible_control] 1 ''a@x'' ?w) = Inr ?res"
    by (simp add: rollback_remediation_rolled_back
          [OF example_fixed_lookup(1) example_fixed_lookup(4) example_fixed_lookup(5)
              example_fixed_lookup(2) example_fixed_lookup(3) example_rollback _
              example_fixed_lookup(6)])
  have h2: "dict_get ?res ''success'' = Some (PyBool True)"
    by (simp add: py_dict_def)
  have db: "control_results (db ?w) = [example_fixed]" "audit_logs (db ?w) = []" "clock ?w = 1"
    "cr_id example_fixed = 1"
    by (simp_all add: example_world_def example_fixed_def example_result_def)
  have iso: "isoformat (clock ?w) = ''1''"
    unfolding db(3) isoformat_def by code_simp
  have g: "filter (\<lambda>r. cr_id r = 1)
      (control_results (db (example_world [example_result 1 ''FAIL''] []))) =
      [example_result 1 ''FAIL''] \<and>
      (cr_status (example_result 1 ''FAIL'') \<noteq> ''FIXED'' \<or>
       cr_rollback_data (example_result 1 ''FAIL'') = PyNone)"
    by (simp add: example_world_def example_result_def)
  note first = rollback_effect_and_rejection
         [of "[reversible_control]" 1 "''a@x''" ?w ?res, THEN conjunct1, THEN mp, OF conjI [OF h1 h2]]
  note second = rollback_effect_and_rejection
         [of "[S3PublicAccessControl]" 1 "''a@x''" "example_world [example_result 1 ''FAIL''] []"
             _ "example_result 1 ''FAIL''", THEN conjunct2, THEN mp, OF g]
  from first obtain fr d e where
    fr: "filter (\<lambda>r. cr_id r = 1) (control_results (db ?w)) = [fr]"
    and tab: "filter (\<lambda>r. cr_id r = 1)
                (control_results (db (snd (rollback_remediation [reversible_control] 1 ''a@x'' ?w)))) =
              [fr\<lparr>cr_status := ''FAIL'',
                  cr_remediation_status := Some ''rolled_back'',
                  cr_remediation_details := d\<rparr>]"
    and all: "control_results (db (snd (rollback_remediation [reversible_control] 1 ''a@x'' ?w))) =
              map (\<lambda>r. if cr_id r = 1
                        then r\<lparr>cr_status := ''FAIL'',
                               cr_remediation_status := Some ''rolled_back'',
                               cr_remediation_details := d\<rparr>
                        else r) (control_results (db ?w))"
    and at: "dict_get d ''rolled_back_at'' = Some (PyStr (isoformat (clock ?w)))"
    and who: "dict_get d ''rolled_back_by'' = Some (PyStr ''a@x'')"
    and log: "audit_logs (db (snd (rollback_remediation [reversible_control] 1 ''a@x'' ?w))) =
                   audit_logs (db ?w) @ [e]"
    and ev: "al_event_type e = ''rollback''" "al_actor e = Some ''a@x''"
    by (elim exE conjE)
  have a: "control_results (db (snd (rollback_remediation [reversible_control] 1 ''a@x'' ?w))) =
            [example_fixed\<lparr>cr_status := ''FAIL'',
                cr_remediation_status := Some ''rolled_back'',
                cr_remediation_details := d\<rparr>]"
    using all by (simp add: db)
  have b: "dict_get d ''rolled_back_at'' = Some (PyStr ''1'')"
    using at unfolding iso .
  have c: "audit_logs (db (snd (rollback_remediation [reversible_control] 1 ''a@x'' ?w))) = [e]"
    using log by (simp add: db)
  from a b who have A: "\<exists>d. control_results (db (snd (rollback_remediation [reversible_control] 1 ''a@x''
                ?w))) =
            [example_fixed\<lparr>cr_status := ''FAIL'',
                cr_remediation_status := Some ''rolled_back'',
                cr_remediation_details := d\<rparr>]
          \<and> dict_get d ''rolled_back_at'' = Some (PyStr ''1'')
          \<and> dict_get d ''rolled_back_by'' = Some (PyStr ''a@x'')"
    by (intro exI conjI)
  from c ev have B: "\<exists>e. audit_logs (db (snd (rollback_remediation [reversible_control] 1 ''a@x''
                ?w))) = [e]
          \<and> al_event_type e = ''rollback'' \<and> al_actor e = Some ''a@x''"
    by (intro exI conjI)
  from h1 A B second show ?thesis by (intro conjI)
qed

lemma example_execute:
  "remediate S3PublicAccessControl (client_for example_account)
     (cloud (example_world rs logs)) (finding_object (example_result 1 s)) False =
   (Inr (blocked_result (finding_object (example_result 1 s))),
    example_cloud\<lparr>sent := [example_put_request]\<rparr>)"
  by (simp add: S3PublicAccessControl_def S3PublicAccess_remediate_def example_world_def
        example_cloud_def client_for_def example_account_def evidence_bucket_def
        finding_object_def example_result_def py_dict_def example_put_request_def)

lemma example_executed_result:
  "fst (remediate_finding [S3PublicAccessControl] 1 False approved_by
          (example_world [example_result 1 ''FAIL''] [])) =
     Inr (py_dict
        [(''success'', PyBool True),
         (''finding_id'', PyInt 1),
         (''control_id'', PyStr ''AWS-S3-001''),
         (''dry_run'', PyBool False),
         (''resource_id'', PyStr ''arn:aws:s3:::b1''),
         (''before_state'', py_dict [(''bucket'', PyStr ''b1'')]),
         (''after_state'', py_dict [(''blocked'', PyBool True)]),
         (''message'', PyStr ''Remediation executed successfully'')])"
proof -
  have ok: "rr_success (blocked_result (finding_object (example_result 1 ''FAIL'')))"
    by (simp add: blocked_result_def)
  have st: "cr_status (example_result 1 ''FAIL'') = ''FAIL'' \<or>
            cr_status (example_result 1 ''FAIL'') = ''ERROR''"
    by (simp add: example_result_def)
  show ?thesis
    by (simp add: remediate_finding_executed
          [OF example_lookup(1) st example_lookup(2) example_lookup(3) example_execute ok])
       (simp add: example_result_def blocked_result_def finding_object_def opt_str_def)
qed

lemma example_executed_world:
  "control_results (db (snd (remediate_finding [S3PublicAccessControl] 1 False approved_by
          (example_world [example_result 1 ''FAIL''] [])))) =
     [(example_result 1 ''FIXED'')
        \<lparr>cr_remediation_status := Some ''executed'',
         cr_remediation_approved_by := approved_by,
         cr_remediation_executed_at := Some 1,
         cr_evidence_after := py_dict [(''blocked'', PyBool True)],
         cr_rollback_data := py_dict [(''bucket'', PyStr ''b1'')],
         cr_resolved_at := Some 2\<rparr>]"
  "sent (cloud (snd (remediate_finding [S3PublicAccessControl] 1 False approved_by
          (example_world [example_result 1 ''FAIL''] [])))) = [example_put_request]"
  "\<exists>e. audit_logs (db (snd (remediate_finding [S3PublicAccessControl] 1 False approved_by
          (example_world [example_result 1 ''FAIL''] [])))) = [e]
       \<and> al_event_type e = ''remediation'' \<and> al_actor e = Some (actor_of approved_by)
       \<and> al_success e = Some ''success''"
proof -
  have ok: "rr_success (blocked_result (finding_object (example_result 1 ''FAIL'')))"
    by (simp add: blocked_result_def)
  have st: "cr_status (example_result 1 ''FAIL'') = ''FAIL'' \<or>
            cr_status (example_result 1 ''FAIL'') = ''ERROR''"
    by (simp add: example_result_def)
  note run = remediate_finding_executed
          [OF example_lookup(1) st example_lookup(2) example_lookup(3) example_execute ok]
  show "control_results (db (snd (remediate_finding [S3PublicAccessControl] 1 False approved_by
          (example_world [example_result 1 ''FAIL''] [])))) =
     [(example_result 1 ''FIXED'')
        \<lparr>cr_remediation_status := Some ''executed'',
         cr_remediation_approved_by := approved_by,
         cr_remediation_executed_at := Some 1,
         cr_evidence_after := py_dict [(''blocked'', PyBool True)],
         cr_rollback_data := py_dict [(''bucket'', PyStr ''b1'')],
         cr_resolved_at := Some 2\<rparr>]"
    by (simp add: run RemediationEngine_log_audit_frame commit_db update_result_def)
       (simp add: example_world_def example_result_def blocked_result_def finding_object_def)
  show "sent (cloud (snd (remediate_finding [S3PublicAccessControl] 1 False approved_by
          (example_world [example_result 1 ''FAIL''] [])))) = [example_put_request]"
    by (simp add: run RemediationEngine_log_audit_frame commit_def)
  show "\<exists>e. audit_logs (db (snd (remediate_finding [S3PublicAccessControl] 1 False approved_by
          (example_world [example_result 1 ''FAIL''] [])))) = [e]
       \<and> al_event_type e = ''remediation'' \<and> al_actor e = Some (actor_of approved_by)
       \<and> al_success e = Some ''success''"
    by (simp add: run RemediationEngine_log_audit_logs commit_db update_result_def)
       (simp add: example_world_def no_kwargs_def)
qed

text \<open>
  Claim C2 fails on the code, whose docstring says that \<^verbatim>\<open>approved_by\<close> is required
  for a run that is not a dry run: \<^verbatim>\<open>remediate_finding\<close> with \<^verbatim>\<open>dry_run=False\<close>
  and no approver (\<^verbatim>\<open>None\<close>, or the empty string) sends the mutating request to the
  provider, marks the finding FIXED with no approver, and returns a successful result.
\<close>

theorem unapproved_remediation_is_executed:
  "fst (remediate_finding [S3PublicAccessControl] 1 False None
          (example_world [example_result 1 ''FAIL''] [])) =
     Inr (py_dict
        [(''success'', PyBool True),
         (''finding_id'', PyInt 1),
         (''control_id'', PyStr ''AWS-S3-001''),
         (''dry_run'', PyBool False),
         (''resource_id'', PyStr ''arn:aws:s3:::b1''),
         (''before_state'', py_dict [(''bucket'', PyStr ''b1'')]),
         (''after_state'', py_dict [(''blocked'', PyBool True)]),
         (''message'', PyStr ''Remediation executed successfully'')])
   \<and> sent (cloud (snd (remediate_finding [S3PublicAccessControl] 1 False None
          (example_world [example_result 1 ''FAIL''] [])))) = [example_put_request]
   \<and> control_results (db (snd (remediate_finding [S3PublicAccessControl] 1 False None
          (example_world [example_result 1 ''FAIL''] [])))) =
     [(example_result 1 ''FIXED'')
        \<lparr>cr_remediation_status := Some ''executed'',
         cr_remediation_approved_by := None,
         cr_remediation_executed_at := Some 1,
         cr_evidence_after := py_dict [(''blocked'', PyBool True)],
         cr_rollback_data := py_dict [(''bucket'', PyStr ''b1'')],
         cr_resolved_at := Some 2\<rparr>]
   \<and> fst (remediate_finding [S3PublicAccessControl] 1 False (Some [])
          (example_world [example_result 1 ''FAIL''] [])) =
       fst (remediate_finding [S3PublicAccessControl] 1 False None
          (example_world [example_result 1 ''FAIL''] []))"
  using example_executed_result [of None] example_executed_result [of "Some []"]
    example_executed_world(1) [of None] example_executed_world(2) [of None]
  by simp

text \<open>
  Claim C3, as stated, fails: after a successful remediation of a finding that is not a
  dry run, the second call raises a \<^verbatim>\<open>ValueError\<close>; it does not return a
  successful result with \<^verbatim>\<open>noop\<close>.
\<close>

theorem repeated_remediation_counterexample:
  "fst (remediate_finding [S3PublicAccessControl] 1 False (Some ''a@x'')
          (example_world [example_result 1 ''FAIL''] [])) =
     Inr (py_dict
        [(''success'', PyBool True),
         (''finding_id'', PyInt 1),
         (''control_id'', PyStr ''AWS-S3-001''),
         (''dry_run'', PyBool False),
         (''resource_id'', PyStr ''arn:aws:s3:::b1''),
         (''before_state'', py_dict [(''bucket'', PyStr ''b1'')]),
         (''after_state'', py_dict [(''blocked'', PyBool True)]),
         (''message'', PyStr ''Remediation executed successfully'')])
   \<and> fst (remediate_finding [S3PublicAccessControl] 1 False (Some ''a@x'')
          (snd (remediate_finding [S3PublicAccessControl] 1 False (Some ''a@x'')
                  (example_world [example_result 1 ''FAIL''] [])))) =
     Inl (ValueError ''Finding 1 is not in remediable state'')"
proof -
  note h1 = example_executed_result [of "Some ''a@x''"]
  have h2: "dict_get (py_dict
        [(''success'', PyBool True),
         (''finding_id'', PyInt 1),
         (''control_id'', PyStr ''AWS-S3-001''),
         (''dry_run'', PyBool False),
         (''resource_id'', PyStr ''arn:aws:s3:::b1''),
         (''before_state'', py_dict [(''bucket'', PyStr ''b1'')]),
         (''after_state'', py_dict [(''blocked'', PyBool True)]),
         (''message'', PyStr ''Remediation executed successfully'')]) ''success'' =
       Some (PyBool True)"
    by (simp add: py_dict_def)
  have "fst (remediate_finding [S3PublicAccessControl] 1 False (Some ''a@x'')
          (snd (remediate_finding [S3PublicAccessControl] 1 False (Some ''a@x'')
                  (example_world [example_result 1 ''FAIL''] [])))) =
     Inl (ValueError ''Finding 1 is not in remediable state'')"
    by (simp add: second_remediation_rejected [OF h1 h2] str_int_1)
  with h1 show ?thesis by (intro conjI)
qed

text \<open>
  Claim C3, amended. After a successful remediation that is not a dry run, every further
  \<^verbatim>\<open>remediate_finding\<close> of the same finding raises the \<^verbatim>\<open>ValueError\<close> of a
  finding that is not in a remediable state and leaves the world as it was: nothing is
  applied again, no finding is updated and no audit entry is written. After a successful
  rollback, every further \<^verbatim>\<open>rollback_remediation\<close> of the same finding raises the
  \<^verbatim>\<open>ValueError\<close> of a finding that is not in a rollback-able state, and leaves the
  world as it was.
\<close>

theorem repeated_call_is_rejected:
  "(fst (remediate_finding catalog finding_id False approved_by w) = Inr res \<and>
    dict_get res ''success'' = Some (PyBool True) \<longrightarrow>
      remediate_finding catalog finding_id dry_run' approved_by'
           (snd (remediate_finding catalog finding_id False approved_by w)) =
         (Inl (ValueError (''Finding '' @ str_int finding_id @ '' is not in remediable state'')),
          snd (remediate_finding catalog finding_id False approved_by w)))
   \<and> (fst (rollback_remediation catalog finding_id rolled_back_by w) = Inr res' \<and>
      dict_get res' ''success'' = Some (PyBool True) \<longrightarrow>
        rollback_remediation catalog finding_id rolled_back_by'
           (snd (rollback_remediation catalog finding_id rolled_back_by w)) =
         (Inl (ValueError (''Finding '' @ str_int finding_id @ '' not in rollback-able state'')),
          snd (rollback_remediation catalog finding_id rolled_back_by w)))"
  using second_remediation_rejected second_rollback_rejected(1) by blast

lemma example_rolled_back_result:
  "fst (rollback_remediation [reversible_control] 1 ''a@x'' (example_world [example_fixed] [])) =
     Inr (py_dict [(''success'', PyBool True), (''finding_id'', PyInt 1),
                   (''message'', PyStr ''Remediation rolled back successfully'')])"
  by (simp add: rollback_remediation_rolled_back
        [OF example_fixed_lookup(1) example_fixed_lookup(4) example_fixed_lookup(5)
            example_fixed_lookup(2) example_fixed_lookup(3) example_rollback _
            example_fixed_lookup(6)])

text \<open>Claim C3, amended, at a second remediation of the finding of the bucket b1 (this
  time a dry run, by another caller) and at a second rollback of it.\<close>

theorem repeated_call_is_rejected_witness:
  "remediate_finding [S3PublicAccessControl] 1 True None
     (snd (remediate_finding [S3PublicAccessControl] 1 False (Some ''a@x'')
             (example_world [example_result 1 ''FAIL''] []))) =
   (Inl (ValueError ''Finding 1 is not in remediable state''),
    snd (remediate_finding [S3PublicAccessControl] 1 False (Some ''a@x'')
           (example_world [example_result 1 ''FAIL''] [])))
   \<and> rollback_remediation [reversible_control] 1 ''b@x''
       (snd (rollback_remediation [reversible_control] 1 ''a@x''
               (example_world [example_fixed] []))) =
     (Inl (ValueError ''Finding 1 not in rollback-able state''),
      snd (rollback_remediation [reversible_control] 1 ''a@x''
             (example_world [example_fixed] [])))"
proof -
  note h1 = example_executed_result [of "Some ''a@x''"]
  have h2: "dict_get (py_dict
        [(''success'', PyBool True),
         (''finding_id'', PyInt 1),
         (''control_id'', PyStr ''AWS-S3-001''),
         (''dry_run'', PyBool False),
         (''resource_id'', PyStr ''arn:aws:s3:::b1''),
         (''before_state'', py_dict [(''bucket'', PyStr ''b1'')]),
         (''after_state'', py_dict [(''blocked'', PyBool True)]),
         (''message'', PyStr ''Remediation executed successfully'')]) ''success'' =
       Some (PyBool True)"
    by (simp add: py_dict_def)
  note g1 = example_rolled_back_result
  have g2: "dict_get (py_dict [(''success'', PyBool True), (''finding_id'', PyInt 1),
                   (''message'', PyStr ''Remediation rolled back successfully'')]) ''success'' =
       Some (PyBool True)"
    by (simp add: py_dict_def)
  note first = repeated_call_is_rejected
    [where dry_run' = True and approved_by' = None,
     THEN conjunct1, THEN mp, OF conjI [OF h1 h2]]
  note second = repeated_call_is_rejected
    [where rolled_back_by' = "''b@x''",
     THEN conjunct2, THEN mp, OF conjI [OF g1 g2]]
  from first second show ?thesis by (simp add: str_int_1)
qed

end
